theory Spec2Isabelle
  imports Complex_Main "HOL-Library.Sublist"
begin


section \<open>The documentation Makefile (docs/Makefile)\<close>

text \<open>
  A makefile is a program in the language of make: variable assignments, rules, and
  recipes that are expanded text handed to the shell. The model keeps the file as data,
  line by line, and gives the part of make's behaviour that decides which recipe a goal
  runs and what the recipe's text is:
  \<^item> a reference \<open>$(NAME)\<close> is replaced by the variable's value, an assignment on the
    command line taking precedence over the one in the file, an unset variable being
    empty; \<open>$@\<close> is the name of the target;
  \<^item> an explicit rule with a recipe is used for its target wherever it stands in the file;
    a target declared \<open>.PHONY\<close> is never looked up among the pattern rules; any other
    target is matched against the pattern rules in file order;
  \<^item> a pattern rule whose target is just \<open>%\<close> and that is not terminal (a match-anything
    rule) is not considered for a name that some other pattern rule target matches,
    the built-in ones included;
  \<^item> with no goal on the command line the goal is the first target of the file that is
    neither a pattern nor a name starting with a dot.

  Whether make decides to remake the goal (it always does for a phony goal and for a goal
  with a phony prerequisite; for another goal only when no file of that name exists) and
  the remaking of prerequisites are not part of the model: the only prerequisite of a
  rule with a recipe is \<open>Makefile\<close>, the file being read, which is phony and has no
  recipe. Values given on the command line are taken as literal text.
\<close>

datatype part = Lit string | Ref string | Target

record recipe_line =
  silent :: bool
  ignore_errors :: bool
  line :: "part list"

record rule =
  targets :: "string list"
  prereqs :: "string list"
  recipe :: "recipe_line list"

text \<open>
  Lines 4 to 17. The value of \<open>SPHINXAUTO\<close> is written over eight lines joined by
  backslash-newline, which make reads as single spaces.
\<close>

definition SPHINXOPTS :: string where
  "SPHINXOPTS = ''-j 1 -aT''"

definition SPHINXAUTO :: string where
  "SPHINXAUTO = ''--watch '../qucumber' --watch '../examples' --ignore '*.swp' --ignore '**/.~*.ipynb' --ignore '**/*-checkpoint.ipynb' --re-ignore '_examples/*' --ignore Makefile''"

definition variables :: "(string \<times> string) list" where
  "variables =
    [(''SPHINXOPTS'', SPHINXOPTS),
     (''SPHINXAUTO'', SPHINXAUTO),
     (''SPHINXBUILD'', ''sphinx-build''),
     (''SPHINXPROJ'', ''QuCumber''),
     (''SOURCEDIR'', ''.''),
     (''BUILDDIR'', ''_build''),
     (''PYTHONPATH'', ''../'')]"

text \<open>
  In a recipe a backslash-newline stays in the text given to the shell; make removes the
  first tab of the line that follows. The continuation lines of the two \<open>live\<close> recipes
  are indented by two tabs, so one is left.
\<close>

definition continuation :: string where
  "continuation = [CHR 0x5C, CHR 0x0A, CHR 0x09]"

text \<open>Lines 21 and 22.\<close>

definition help_rule :: rule where
  "help_rule = \<lparr>targets = [''help''], prereqs = [],
     recipe = [\<lparr>silent = True, ignore_errors = False,
       line = [Ref ''SPHINXBUILD'', Lit '' -M help \"'', Ref ''SOURCEDIR'', Lit ''\" \"'',
               Ref ''BUILDDIR'', Lit ''\" '', Ref ''SPHINXOPTS'', Lit '' '', Ref ''O'']\<rparr>]\<rparr>"

text \<open>Line 24.\<close>

definition phony_rule :: rule where
  "phony_rule = \<lparr>targets = [''.PHONY''],
     prereqs = [''help'', ''Makefile'', ''livehtml'', ''livetest''], recipe = []\<rparr>"

text \<open>Lines 28 and 29, the catch-all.\<close>

definition catch_all :: rule where
  "catch_all = \<lparr>targets = [''%''], prereqs = [''Makefile''],
     recipe = [\<lparr>silent = True, ignore_errors = False,
       line = [Ref ''SPHINXBUILD'', Lit '' -M '', Target, Lit '' \"'', Ref ''SOURCEDIR'',
               Lit ''\" \"'', Ref ''BUILDDIR'', Lit ''\" '', Ref ''SPHINXOPTS'', Lit '' '',
               Ref ''O'']\<rparr>]\<rparr>"

text \<open>Lines 31 and 32.\<close>

definition test_rule :: rule where
  "test_rule = \<lparr>targets = [''test''], prereqs = [],
     recipe = [\<lparr>silent = True, ignore_errors = False,
       line = [Ref ''SPHINXBUILD'', Lit '' -nW -b dummy \"'', Ref ''SOURCEDIR'', Lit ''\" \"'',
               Ref ''BUILDDIR'', Lit ''\" '', Ref ''SPHINXOPTS'', Lit '' '', Ref ''O'']\<rparr>]\<rparr>"

text \<open>Lines 34 and 35.\<close>

definition spelling_rule :: rule where
  "spelling_rule = \<lparr>targets = [''spelling''], prereqs = [],
     recipe = [\<lparr>silent = True, ignore_errors = False,
       line = [Ref ''SPHINXBUILD'', Lit '' -M spelling \"'', Ref ''SOURCEDIR'', Lit ''\" \"'',
               Ref ''BUILDDIR'', Lit ''\" '', Ref ''SPHINXOPTS'', Lit '' '', Ref ''O'',
               Lit '' -W'']\<rparr>]\<rparr>"

text \<open>Lines 37 and 38.\<close>

definition linkcheck_rule :: rule where
  "linkcheck_rule = \<lparr>targets = [''linkcheck''], prereqs = [],
     recipe = [\<lparr>silent = True, ignore_errors = False,
       line = [Ref ''SPHINXBUILD'', Lit '' -M linkcheck \"'', Ref ''SOURCEDIR'', Lit ''\" \"'',
               Ref ''BUILDDIR'', Lit ''\" '', Ref ''SPHINXOPTS'', Lit '' '', Ref ''O'',
               Lit '' -W'']\<rparr>]\<rparr>"

text \<open>Lines 40 to 45.\<close>

definition livehtml_rule :: rule where
  "livehtml_rule = \<lparr>targets = [''livehtml''], prereqs = [],
     recipe = [\<lparr>silent = False, ignore_errors = False,
       line = [Lit (''sphinx-autobuild -b html '' @ continuation), Ref ''SPHINXAUTO'',
               Lit ('' '' @ continuation), Ref ''SPHINXOPTS'',
               Lit ('' '' @ continuation @ ''\"''), Ref ''SOURCEDIR'',
               Lit (''\" '' @ continuation @ ''\"''), Ref ''BUILDDIR'', Lit ''/html\"'']\<rparr>]\<rparr>"

text \<open>Lines 47 to 52.\<close>

definition livetest_rule :: rule where
  "livetest_rule = \<lparr>targets = [''livetest''], prereqs = [],
     recipe = [\<lparr>silent = False, ignore_errors = False,
       line = [Lit (''sphinx-autobuild -nW -b dummy '' @ continuation), Ref ''SPHINXAUTO'',
               Lit ('' '' @ continuation), Ref ''SPHINXOPTS'',
               Lit ('' '' @ continuation @ ''\"''), Ref ''SOURCEDIR'',
               Lit (''\" '' @ continuation @ ''\"''), Ref ''BUILDDIR'', Lit ''\"'']\<rparr>]\<rparr>"

text \<open>The rules in the order of the file.\<close>

definition rules :: "rule list" where
  "rules = [help_rule, phony_rule, catch_all, test_rule, spelling_rule, linkcheck_rule,
            livehtml_rule, livetest_rule]"

subsection \<open>Expansion\<close>

record invocation =
  overrides :: "(string \<times> string) list"
  builtin_patterns :: "string list"

text \<open>
  \<open>overrides\<close> are the \<open>NAME=value\<close> arguments of the command line; \<open>builtin_patterns\<close>
  are the target patterns of the built-in pattern rules in force (none under
  \<open>make -r\<close>). \<open>plain\<close> is \<open>make\<close> called with a goal and nothing else.
\<close>

definition plain :: "string list \<Rightarrow> invocation" where
  "plain bs = \<lparr>overrides = [], builtin_patterns = bs\<rparr>"

definition value_of :: "invocation \<Rightarrow> string \<Rightarrow> string" where
  "value_of iv n =
     (case map_of (overrides iv) n of
        Some v \<Rightarrow> v
      | None \<Rightarrow> (case map_of variables n of Some v \<Rightarrow> v | None \<Rightarrow> []))"

fun expand_part :: "invocation \<Rightarrow> string \<Rightarrow> part \<Rightarrow> string" where
  "expand_part iv t (Lit s) = s"
| "expand_part iv t (Ref n) = value_of iv n"
| "expand_part iv t Target = t"

definition expand :: "invocation \<Rightarrow> string \<Rightarrow> part list \<Rightarrow> string" where
  "expand iv t ps = concat (map (expand_part iv t) ps)"

record command =
  quiet :: bool
  tolerated :: bool
  cmd :: string

definition expand_recipe :: "invocation \<Rightarrow> string \<Rightarrow> rule \<Rightarrow> command list" where
  "expand_recipe iv t r =
     map (\<lambda>l. \<lparr>quiet = silent l, tolerated = ignore_errors l, cmd = expand iv t (line l)\<rparr>)
       (recipe r)"

subsection \<open>Choosing the rule of a goal\<close>

definition is_pattern :: "string \<Rightarrow> bool" where
  "is_pattern p = (CHR ''%'' \<in> set p)"

text \<open>A pattern matches a name that has its prefix and suffix around a non-empty stem.\<close>

definition pattern_match :: "string \<Rightarrow> string \<Rightarrow> bool" where
  "pattern_match p t =
     (let pre = takeWhile (\<lambda>c. c \<noteq> CHR ''%'') p;
          suf = drop (Suc (length pre)) p
      in is_pattern p \<and> length pre + length suf < length t \<and>
         take (length pre) t = pre \<and> drop (length t - length suf) t = suf)"

definition phony :: "string \<Rightarrow> bool" where
  "phony t = (\<exists>r \<in> set rules. ''.PHONY'' \<in> set (targets r) \<and> t \<in> set (prereqs r))"

definition explicit_rule :: "string \<Rightarrow> rule option" where
  "explicit_rule t =
     find (\<lambda>r. t \<in> set (targets r) \<and> \<not> is_pattern t \<and> recipe r \<noteq> []) rules"

definition specific_type :: "invocation \<Rightarrow> string \<Rightarrow> bool" where
  "specific_type iv t =
     (\<exists>p \<in> set (builtin_patterns iv @ concat (map targets rules)).
        p \<noteq> ''%'' \<and> pattern_match p t)"

definition implicit_rule :: "invocation \<Rightarrow> string \<Rightarrow> rule option" where
  "implicit_rule iv t =
     find (\<lambda>r. \<exists>p \<in> set (targets r).
             pattern_match p t \<and> (p = ''%'' \<longrightarrow> \<not> specific_type iv t)) rules"

definition named :: "string \<Rightarrow> bool" where
  "named t = (\<exists>r \<in> set rules. t \<in> set (targets r) \<and> \<not> is_pattern t)"

datatype make_error = No_targets | No_rule string | Builtin_rules string

text \<open>
  \<open>Inr []\<close> is make's "Nothing to be done". A name that only built-in rules could make
  is outside the model: \<open>Builtin_rules\<close>.
\<close>

definition recipe_for :: "invocation \<Rightarrow> string \<Rightarrow> make_error + command list" where
  "recipe_for iv t =
     (case explicit_rule t of
        Some r \<Rightarrow> Inr (expand_recipe iv t r)
      | None \<Rightarrow>
          if phony t then Inr []
          else (case implicit_rule iv t of
                  Some r \<Rightarrow> Inr (expand_recipe iv t r)
                | None \<Rightarrow>
                    if specific_type iv t then Inl (Builtin_rules t)
                    else if named t then Inr []
                    else Inl (No_rule t)))"

fun eligible :: "string \<Rightarrow> bool" where
  "eligible [] = False"
| "eligible (c # cs) = (\<not> is_pattern (c # cs) \<and> (c \<noteq> CHR ''.'' \<or> CHR ''/'' \<in> set cs))"

definition default_goal :: "string option" where
  "default_goal = List.find eligible (concat (map targets rules))"

definition invoke_make :: "invocation \<Rightarrow> string option \<Rightarrow> make_error + command list" where
  "invoke_make iv g =
     (case g of
        Some t \<Rightarrow> recipe_for iv t
      | None \<Rightarrow> (case default_goal of None \<Rightarrow> Inl No_targets | Some t \<Rightarrow> recipe_for iv t))"

subsection \<open>The rules with a recipe of their own\<close>

definition explicit_targets :: "string list" where
  "explicit_targets =
     concat (map targets (filter (\<lambda>r. recipe r \<noteq> [] \<and> \<not> list_ex is_pattern (targets r)) rules))"

subsection \<open>The words of a command\<close>

text \<open>
  The shell splits the text of a recipe line into words: blanks separate words outside
  quotes, single quotes keep everything, double quotes keep everything but a backslash
  before \<open>"\<close>, \<open>\\<close>, \<open>$\<close> or a backquote, a backslash outside quotes keeps the next
  character, and a backslash-newline disappears. \<open>None\<close> is an unterminated quote.
  Expansions by the shell itself (\<open>$\<close>, globbing, operators) are not modelled: the
  recipes of this file have none outside quotes.
\<close>

datatype quoting = Unquoted | Single | Double

definition blank :: "char \<Rightarrow> bool" where
  "blank c = (c = CHR '' '' \<or> c = CHR 0x09 \<or> c = CHR 0x0A)"

definition grow :: "string option \<Rightarrow> string \<Rightarrow> string option" where
  "grow w s = Some ((case w of None \<Rightarrow> [] | Some x \<Rightarrow> x) @ s)"

fun shell_split :: "quoting \<Rightarrow> string option \<Rightarrow> string \<Rightarrow> string list option" where
  "shell_split Unquoted w [] = Some (case w of None \<Rightarrow> [] | Some x \<Rightarrow> [x])"
| "shell_split Single w [] = None"
| "shell_split Double w [] = None"
| "shell_split Unquoted w (c # cs) =
     (if blank c then
        (case w of
           None \<Rightarrow> shell_split Unquoted None cs
         | Some x \<Rightarrow> map_option ((#) x) (shell_split Unquoted None cs))
      else if c = CHR 0x27 then shell_split Single (grow w []) cs
      else if c = CHR 0x22 then shell_split Double (grow w []) cs
      else if c = CHR 0x5C then
        (case cs of
           [] \<Rightarrow> shell_split Unquoted (grow w [c]) []
         | d # ds \<Rightarrow>
             if d = CHR 0x0A then shell_split Unquoted w ds
             else shell_split Unquoted (grow w [d]) ds)
      else shell_split Unquoted (grow w [c]) cs)"
| "shell_split Single w (c # cs) =
     (if c = CHR 0x27 then shell_split Unquoted w cs else shell_split Single (grow w [c]) cs)"
| "shell_split Double w (c # cs) =
     (if c = CHR 0x22 then shell_split Unquoted w cs
      else if c = CHR 0x5C then
        (case cs of
           [] \<Rightarrow> None
         | d # ds \<Rightarrow>
             if d = CHR 0x0A then shell_split Double w ds
             else if d \<in> set [CHR 0x22, CHR 0x5C, CHR ''$'', CHR 0x60]
               then shell_split Double (grow w [d]) ds
             else shell_split Double (grow w [c, d]) ds)
      else shell_split Double (grow w [c]) cs)"

definition shell_words :: "string \<Rightarrow> string list option" where
  "shell_words s = shell_split Unquoted None s"

text \<open>
  A target name that the shell leaves as one word, and that is not read as an option:
  letters, digits and \<open>_ - . /\<close>, not starting with a dash.
\<close>

definition word_char :: "char \<Rightarrow> bool" where
  "word_char c = (c \<in> set ''abcdefghijklmnopqrstuvwxyzABCDEFGHIJKLMNOPQRSTUVWXYZ0123456789_-./'')"

fun plain_word :: "string \<Rightarrow> bool" where
  "plain_word [] = False"
| "plain_word (c # cs) = (c \<noteq> CHR ''-'' \<and> list_all word_char (c # cs))"

text \<open>
  The one-letter options of a command: the letters of its words that start with a single
  dash (\<open>-nW\<close> is \<open>-n -W\<close>). The first word is the program.
\<close>

fun option_letters :: "string \<Rightarrow> string" where
  "option_letters (c # d # r) = (if c = CHR ''-'' \<and> d \<noteq> CHR ''-'' then d # r else [])"
| "option_letters w = []"

definition has_option :: "char \<Rightarrow> string \<Rightarrow> bool" where
  "has_option x s =
     (case shell_words s of
        None \<Rightarrow> False
      | Some ws \<Rightarrow> list_ex (\<lambda>w. x \<in> set (option_letters w)) (tl ws))"

text \<open>The three words \<open>-j 1 -aT\<close> in a row.\<close>

fun fixed_flags_in :: "string list \<Rightarrow> bool" where
  "fixed_flags_in (a # b # c # r) =
     ((a = ''-j'' \<and> b = ''1'' \<and> c = ''-aT'') \<or> fixed_flags_in (b # c # r))"
| "fixed_flags_in ws = False"

definition fixed_flags :: "string \<Rightarrow> bool" where
  "fixed_flags s = (case shell_words s of None \<Rightarrow> False | Some ws \<Rightarrow> fixed_flags_in ws)"

subsection \<open>The shell\<close>

text \<open>
  make hands the text of a recipe line to \<open>/bin/sh -c\<close>. The shell reads the text as a
  list of pipelines joined by \<open>;\<close>, \<open>&&\<close> and \<open>||\<close>, a pipeline being simple commands
  joined by \<open>|\<close>, with \<open>!\<close> in front to negate its status. This is where a recipe can
  handle a failure: \<open>command || true\<close> hides it, \<open>command || other\<close> recovers from it,
  \<open>command || command\<close> tries again, \<open>command | cat\<close> loses it.

  The tokens of a text are its words and operators. Quoting is as for \<open>shell_split\<close>; a
  word is \<open>bare\<close> when no part of it is quoted, and only a bare word can be a reserved
  word. The model does not cover expansions, redirections, subshells, background
  commands, assignments, comments, compound commands, or a newline outside quotes: a
  text that has one of them unquoted is \<open>Outside_model\<close>, and nothing is claimed
  about it.
\<close>

datatype shell_error = Open_quote | Bad_syntax | Outside_model

datatype token = Word bool string | Op string

definition grow_word :: "(bool \<times> string) option \<Rightarrow> bool \<Rightarrow> string \<Rightarrow> (bool \<times> string) option" where
  "grow_word w b s = (case w of None \<Rightarrow> Some (b, s) | Some (b', x) \<Rightarrow> Some (b' \<and> b, x @ s))"

definition emit :: "(bool \<times> string) option \<Rightarrow> token list \<Rightarrow> token list" where
  "emit w ts = (case w of None \<Rightarrow> ts | Some (b, s) \<Rightarrow> Word b s # ts)"

definition after :: "(bool \<times> string) option \<Rightarrow> token list \<Rightarrow>
    shell_error + token list \<Rightarrow> shell_error + token list" where
  "after w ts r = (case r of Inl e \<Rightarrow> Inl e | Inr us \<Rightarrow> Inr (emit w (ts @ us)))"

definition operator_char :: "char \<Rightarrow> bool" where
  "operator_char c = (c \<in> set ''|&;<>()'')"

text \<open>
  Characters that, unquoted, start an expansion (\<open>$\<close>, backquote, \<open>~\<close>), a pattern
  (\<open>*\<close>, \<open>?\<close>, \<open>[\<close>), a comment (\<open>#\<close>), a group (\<open>{\<close>, \<open>}\<close>) or an assignment (\<open>=\<close>).
\<close>

definition special_char :: "char \<Rightarrow> bool" where
  "special_char c = (c \<in> set [CHR ''$'', CHR 0x60, CHR ''~'', CHR ''*'', CHR ''?'', CHR ''['',
     CHR ''#'', CHR ''{'', CHR ''}'', CHR ''=''])"

fun scan :: "quoting \<Rightarrow> (bool \<times> string) option \<Rightarrow> string \<Rightarrow> shell_error + token list" where
  "scan Unquoted w [] = Inr (emit w [])"
| "scan Single w [] = Inl Open_quote"
| "scan Double w [] = Inl Open_quote"
| "scan Unquoted w (c # cs) =
     (if c = CHR 0x0A \<or> special_char c then Inl Outside_model
      else if blank c then after w [] (scan Unquoted None cs)
      else if c = CHR 0x27 then scan Single (grow_word w False []) cs
      else if c = CHR 0x22 then scan Double (grow_word w False []) cs
      else if c = CHR 0x5C then
        (case cs of
           [] \<Rightarrow> Inr (emit (grow_word w False [c]) [])
         | d # ds \<Rightarrow>
             if d = CHR 0x0A then scan Unquoted w ds
             else scan Unquoted (grow_word w False [d]) ds)
      else if operator_char c then
        (case cs of
           [] \<Rightarrow> Inr (emit w [Op [c]])
         | d # ds \<Rightarrow>
             if d = c \<and> c \<noteq> CHR ''('' \<and> c \<noteq> CHR '')''
             then after w [Op [c, d]] (scan Unquoted None ds)
             else after w [Op [c]] (scan Unquoted None (d # ds)))
      else scan Unquoted (grow_word w True [c]) cs)"
| "scan Single w (c # cs) =
     (if c = CHR 0x27 then scan Unquoted w cs else scan Single (grow_word w False [c]) cs)"
| "scan Double w (c # cs) =
     (if c = CHR 0x22 then scan Unquoted w cs
      else if c = CHR ''$'' \<or> c = CHR 0x60 then Inl Outside_model
      else if c = CHR 0x5C then
        (case cs of
           [] \<Rightarrow> Inl Open_quote
         | d # ds \<Rightarrow>
             if d = CHR 0x0A then scan Double w ds
             else if d \<in> set [CHR 0x22, CHR 0x5C, CHR ''$'', CHR 0x60]
               then scan Double (grow_word w False [d]) ds
             else scan Double (grow_word w False [c, d]) ds)
      else scan Double (grow_word w False [c]) cs)"

text \<open>
  A list is cut at \<open>;\<close>, \<open>&&\<close> and \<open>||\<close>; each piece is kept with the operator before it,
  which says when it runs: always, when the status so far is 0, when it is not.
\<close>

datatype connector = Always | If_ok | If_failed

fun connector_of :: "token \<Rightarrow> connector option" where
  "connector_of (Op s) =
     (if s = '';'' then Some Always
      else if s = ''&&'' then Some If_ok
      else if s = ''||'' then Some If_failed
      else None)"
| "connector_of (Word b s) = None"

fun pieces :: "connector \<Rightarrow> token list \<Rightarrow> token list \<Rightarrow> (connector \<times> token list) list" where
  "pieces c acc [] = [(c, rev acc)]"
| "pieces c acc (t # ts) =
     (case connector_of t of
        Some d \<Rightarrow> (c, rev acc) # pieces d [] ts
      | None \<Rightarrow> pieces c (t # acc) ts)"

fun stages_of :: "token list \<Rightarrow> token list \<Rightarrow> token list list" where
  "stages_of acc [] = [rev acc]"
| "stages_of acc (t # ts) =
     (if t = Op ''|'' then rev acc # stages_of [] ts else stages_of (t # acc) ts)"

text \<open>
  A simple command is one word or more, the first of which is not a reserved word: a
  reserved word starts or continues a compound command (\<open>if\<close>, \<open>while\<close>, \<open>until\<close>,
  \<open>for\<close>, \<open>case\<close>, a group), which the model does not cover. An operator other than
  the four above is a redirection, a subshell or a background command.
\<close>

definition reserved :: "string list" where
  "reserved = [''!'', ''{'', ''}'', ''case'', ''do'', ''done'', ''elif'', ''else'', ''esac'', ''fi'',
     ''for'', ''if'', ''in'', ''then'', ''until'', ''while'']"

fun words_of :: "token list \<Rightarrow> string list option" where
  "words_of [] = Some []"
| "words_of (Word b s # ts) = map_option ((#) s) (words_of ts)"
| "words_of (Op s # ts) = None"

definition simple_command :: "token list \<Rightarrow> shell_error + string list" where
  "simple_command ts =
     (case ts of
        [] \<Rightarrow> Inl Bad_syntax
      | Op s # r \<Rightarrow> Inl Outside_model
      | Word b s # r \<Rightarrow>
          if b \<and> s \<in> set reserved then Inl Outside_model
          else (case words_of ts of None \<Rightarrow> Inl Outside_model | Some ws \<Rightarrow> Inr ws))"

fun all_of :: "('e + 'a) list \<Rightarrow> 'e + 'a list" where
  "all_of [] = Inr []"
| "all_of (x # xs) =
     (case x of
        Inl e \<Rightarrow> Inl e
      | Inr a \<Rightarrow> (case all_of xs of Inl e \<Rightarrow> Inl e | Inr as \<Rightarrow> Inr (a # as)))"

text \<open>A pipeline: whether it is negated, and its simple commands.\<close>

type_synonym pipeline = "bool \<times> string list list"

definition pipeline_of :: "token list \<Rightarrow> shell_error + pipeline" where
  "pipeline_of ts =
     (let neg = (ts \<noteq> [] \<and> hd ts = Word True ''!'')
      in case all_of (map simple_command (stages_of [] (if neg then tl ts else ts))) of
           Inl e \<Rightarrow> Inl e
         | Inr cs \<Rightarrow> Inr (neg, cs))"

definition piece_of :: "connector \<times> token list \<Rightarrow> shell_error + connector \<times> pipeline" where
  "piece_of p = (case pipeline_of (snd p) of Inl e \<Rightarrow> Inl e | Inr q \<Rightarrow> Inr (fst p, q))"

text \<open>A \<open>;\<close> may end the list; any other empty piece is a syntax error.\<close>

definition parse :: "string \<Rightarrow> shell_error + (connector \<times> pipeline) list" where
  "parse s =
     (case scan Unquoted None s of
        Inl e \<Rightarrow> Inl e
      | Inr ts \<Rightarrow>
          if ts = [] then Inr []
          else (let ps = pieces Always [] ts
                in all_of (map piece_of
                     (if 1 < length ps \<and> last ps = (Always, []) then butlast ps else ps))))"

text \<open>
  Running. The programs are a parameter: the status a program returns for its words
  (the first is its name; the builtin commands of the shell are not told apart). The
  status of a pipeline is the status of its last command, turned into 0 or 1 the other
  way round under \<open>!\<close>; all its commands run. A piece after \<open>&&\<close> runs when the status
  so far is 0, a piece after \<open>||\<close> when it is not, and a piece that does not run leaves
  the status as it is. The result is the commands that ran, in order, and the status.
\<close>

definition run_pipeline :: "(string list \<Rightarrow> nat) \<Rightarrow> pipeline \<Rightarrow> string list list \<times> nat" where
  "run_pipeline prog p =
     (let status = (if snd p = [] then 0 else prog (last (snd p)))
      in (snd p, if fst p then (if status = 0 then 1 else 0) else status))"

fun run_list :: "(string list \<Rightarrow> nat) \<Rightarrow> nat \<Rightarrow> (connector \<times> pipeline) list \<Rightarrow>
    string list list \<times> nat" where
  "run_list prog status [] = ([], status)"
| "run_list prog status ((c, p) # r) =
     (if c = Always \<or> (c = If_ok \<and> status = 0) \<or> (c = If_failed \<and> status \<noteq> 0)
      then (case run_pipeline prog p of
              (xs, s) \<Rightarrow> (case run_list prog s r of (xs', s') \<Rightarrow> (xs @ xs', s')))
      else run_list prog status r)"

text \<open>A text that the shell cannot parse runs nothing and has status 2.\<close>

definition shell :: "(string list \<Rightarrow> nat) \<Rightarrow> string \<Rightarrow> shell_error + string list list \<times> nat" where
  "shell prog s =
     (case parse s of
        Inl Outside_model \<Rightarrow> Inl Outside_model
      | Inl e \<Rightarrow> Inr ([], 2)
      | Inr ps \<Rightarrow> Inr (run_list prog 0 ps))"

subsection \<open>Running a recipe\<close>

text \<open>
  make hands each line of the recipe to the shell, in order, and stops at the first line
  whose status is not 0, ending with status 2, unless errors are ignored for that line.
  They are ignored for a line marked with \<open>-\<close>, in the file or, since make looks at the
  start of the line again once it is expanded, through the value of a variable; and for
  every line of a target named by the special target \<open>.IGNORE\<close>, or of any target when
  \<open>.IGNORE\<close> has no prerequisite. A goal make has no rule for ends with status 2 as well.
  The result is the commands that ran and the status of make.
\<close>

definition prefix_char :: "char \<Rightarrow> bool" where
  "prefix_char c = (c \<in> set [CHR ''@'', CHR ''+'', CHR ''-'', CHR '' '', CHR 0x09])"

definition noerror :: "command \<Rightarrow> bool" where
  "noerror c = (tolerated c \<or> CHR ''-'' \<in> set (takeWhile prefix_char (cmd c)))"

definition ignored :: "string \<Rightarrow> bool" where
  "ignored t =
     (\<exists>r \<in> set rules. ''.IGNORE'' \<in> set (targets r) \<and> (prereqs r = [] \<or> t \<in> set (prereqs r)))"

fun run_recipe :: "(string list \<Rightarrow> nat) \<Rightarrow> bool \<Rightarrow> command list \<Rightarrow>
    shell_error + string list list \<times> nat" where
  "run_recipe prog ign [] = Inr ([], 0)"
| "run_recipe prog ign (c # cs) =
     (case shell prog (dropWhile prefix_char (cmd c)) of
        Inl e \<Rightarrow> Inl e
      | Inr (xs, status) \<Rightarrow>
          if status = 0 \<or> noerror c \<or> ign
          then (case run_recipe prog ign cs of
                  Inl e \<Rightarrow> Inl e
                | Inr (xs', status') \<Rightarrow> Inr (xs @ xs', status'))
          else Inr (xs, 2))"

definition goal_of :: "string option \<Rightarrow> string option" where
  "goal_of g = (case g of Some t \<Rightarrow> Some t | None \<Rightarrow> default_goal)"

definition run_make :: "(string list \<Rightarrow> nat) \<Rightarrow> invocation \<Rightarrow> string option \<Rightarrow>
    shell_error + string list list \<times> nat" where
  "run_make prog iv g =
     (case invoke_make iv g of
        Inl e \<Rightarrow> Inr ([], 2)
      | Inr cs \<Rightarrow>
          run_recipe prog (case goal_of g of None \<Rightarrow> False | Some t \<Rightarrow> ignored t) cs)"

section \<open>The pre-commit configuration (.pre-commit-config.yaml)\<close>

text \<open>
  The configuration lists repositories of hooks. pre-commit gives each hook the files of
  the change that its filters select, runs the hook's command once when some file is
  selected, and reports failure when a command fails or modifies a file. A hook of repository \<open>local\<close> is
  defined in the configuration itself; a hook of another repository is defined by that
  repository's manifest, the configuration overriding single keys. The manifests are not
  part of this repository and are a parameter of the model.
\<close>

subsection \<open>Patterns\<close>

text \<open>
  The \<open>files\<close> key is a Python regular expression, looked for with \<open>re.search\<close>: some part
  of the path has to match, from the start of the path when the pattern starts with \<open>^\<close>.
  \<open>Dot\<close> is \<open>.\<close>, any character but a newline; \<open>Not_in cs\<close> is \<open>[^cs]\<close>; \<open>Rep1\<close> is \<open>+\<close>;
  \<open>Grp\<close> is a pair of parentheses, which changes nothing to what matches.
\<close>

datatype regex =
    Zero
  | Eps
  | Lit_char char
  | Dot
  | Not_in "char list"
  | Alt regex regex
  | Cat regex regex
  | Star regex
  | Rep1 regex
  | Grp regex

record pattern =
  at_start :: bool
  body :: regex

fun chars :: "string \<Rightarrow> regex" where
  "chars [] = Eps"
| "chars (c # cs) = Cat (Lit_char c) (chars cs)"

text \<open>The words a regular expression matches.\<close>

inductive_set star :: "string set \<Rightarrow> string set" for A :: "string set" where
  star_empty: "[] \<in> star A"
| star_more: "u \<in> A \<Longrightarrow> v \<in> star A \<Longrightarrow> u @ v \<in> star A"

fun lang :: "regex \<Rightarrow> string set" where
  "lang Zero = {}"
| "lang Eps = {[]}"
| "lang (Lit_char c) = {[c]}"
| "lang Dot = {[c] | c. c \<noteq> CHR 0x0A}"
| "lang (Not_in cs) = {[c] | c. c \<notin> set cs}"
| "lang (Alt r s) = lang r \<union> lang s"
| "lang (Cat r s) = {u @ v | u v. u \<in> lang r \<and> v \<in> lang s}"
| "lang (Star r) = star (lang r)"
| "lang (Rep1 r) = {u @ v | u v. u \<in> lang r \<and> v \<in> star (lang r)}"
| "lang (Grp r) = lang r"

text \<open>The matcher: derivatives, character by character.\<close>

fun nullable :: "regex \<Rightarrow> bool" where
  "nullable Zero = False"
| "nullable Eps = True"
| "nullable (Lit_char c) = False"
| "nullable Dot = False"
| "nullable (Not_in cs) = False"
| "nullable (Alt r s) = (nullable r \<or> nullable s)"
| "nullable (Cat r s) = (nullable r \<and> nullable s)"
| "nullable (Star r) = True"
| "nullable (Rep1 r) = nullable r"
| "nullable (Grp r) = nullable r"

definition alt :: "regex \<Rightarrow> regex \<Rightarrow> regex" where
  "alt r s = (if r = Zero then s else if s = Zero then r else Alt r s)"

definition cat :: "regex \<Rightarrow> regex \<Rightarrow> regex" where
  "cat r s = (if r = Zero \<or> s = Zero then Zero else if r = Eps then s else Cat r s)"

fun deriv :: "char \<Rightarrow> regex \<Rightarrow> regex" where
  "deriv c Zero = Zero"
| "deriv c Eps = Zero"
| "deriv c (Lit_char d) = (if c = d then Eps else Zero)"
| "deriv c Dot = (if c \<noteq> CHR 0x0A then Eps else Zero)"
| "deriv c (Not_in cs) = (if c \<notin> set cs then Eps else Zero)"
| "deriv c (Alt r s) = alt (deriv c r) (deriv c s)"
| "deriv c (Cat r s) =
     (if nullable r then alt (cat (deriv c r) s) (deriv c s) else cat (deriv c r) s)"
| "deriv c (Star r) = cat (deriv c r) (Star r)"
| "deriv c (Rep1 r) = cat (deriv c r) (Star r)"
| "deriv c (Grp r) = deriv c r"

fun match_prefix :: "regex \<Rightarrow> string \<Rightarrow> bool" where
  "match_prefix r [] = nullable r"
| "match_prefix r (c # cs) = (nullable r \<or> match_prefix (deriv c r) cs)"

fun match_anywhere :: "regex \<Rightarrow> string \<Rightarrow> bool" where
  "match_anywhere r [] = nullable r"
| "match_anywhere r (c # cs) = (match_prefix r (c # cs) \<or> match_anywhere r cs)"

definition re_search :: "pattern \<Rightarrow> string \<Rightarrow> bool" where
  "re_search p s = (if at_start p then match_prefix (body p) s else match_anywhere (body p) s)"

subsection \<open>The configuration\<close>

text \<open>A key that the file does not give is \<open>None\<close>.\<close>

record hook =
  hook_id :: string
  hook_name :: "string option"
  entry :: "string option"
  language :: "string option"
  files :: "pattern option"
  types :: "string list option"
  args :: "string list option"
  pass_filenames :: "bool option"
  language_version :: "string option"

record repo =
  url :: string
  rev :: "string option"
  hooks :: "hook list"

definition no_keys :: "string \<Rightarrow> hook" where
  "no_keys i = \<lparr>hook_id = i, hook_name = None, entry = None, language = None, files = None,
     types = None, args = None, pass_filenames = None, language_version = None\<rparr>"

text \<open>Lines 2 to 6.\<close>

definition pyupgrade :: hook where
  "pyupgrade = (no_keys ''pyupgrade'') \<lparr>args := Some [''--py36-plus'']\<rparr>"

definition pyupgrade_repo :: repo where
  "pyupgrade_repo = \<lparr>url = ''https://github.com/asottile/pyupgrade'', rev = Some ''v2.17.0'',
     hooks = [pyupgrade]\<rparr>"

text \<open>Lines 7 to 11.\<close>

definition black :: hook where
  "black = (no_keys ''black'') \<lparr>language_version := Some ''python3.7''\<rparr>"

definition black_repo :: repo where
  "black_repo = \<lparr>url = ''https://github.com/ambv/black'', rev = Some ''stable'',
     hooks = [black]\<rparr>"

text \<open>Lines 14 to 19.\<close>

definition license_check :: hook where
  "license_check = (no_keys ''license-check'')
     \<lparr>hook_name := Some ''license-check'', entry := Some ''inv license-check'',
      language := Some ''system'', types := Some [''file'', ''python''],
      pass_filenames := Some False\<rparr>"

text \<open>
  Lines 24 and 30: \<open>^examples\/(.+)\/([^\/]+).ipynb\<close>. A backslash before a slash
  stands for the slash; the dot before \<open>ipynb\<close> is not escaped; nothing anchors the end.
\<close>

definition examples_notebooks :: pattern where
  "examples_notebooks = \<lparr>at_start = True,
     body = Cat (chars ''examples'') (Cat (Lit_char CHR ''/'') (Cat (Grp (Rep1 Dot))
       (Cat (Lit_char CHR ''/'') (Cat (Grp (Rep1 (Not_in ''/''))) (Cat Dot (chars ''ipynb''))))))\<rparr>"

text \<open>Lines 20 to 25.\<close>

definition lint_examples_flake8 :: hook where
  "lint_examples_flake8 = (no_keys ''lint-examples-flake8'')
     \<lparr>hook_name := Some ''lint-examples-flake8'', entry := Some ''inv lint-examples -l flake8'',
      language := Some ''system'', files := Some examples_notebooks,
      pass_filenames := Some False\<rparr>"

text \<open>Lines 26 to 31.\<close>

definition lint_examples_black :: hook where
  "lint_examples_black = (no_keys ''lint-examples-black'')
     \<lparr>hook_name := Some ''lint-examples-black'', entry := Some ''inv lint-examples -l black'',
      language := Some ''system'', files := Some examples_notebooks,
      pass_filenames := Some False\<rparr>"

text \<open>Lines 12 and 13.\<close>

definition local_repo :: repo where
  "local_repo = \<lparr>url = ''local'', rev = None,
     hooks = [license_check, lint_examples_flake8, lint_examples_black]\<rparr>"

definition config :: "repo list" where
  "config = [pyupgrade_repo, black_repo, local_repo]"

subsection \<open>Which hooks run, and what they run\<close>

text \<open>
  A file of the change: its path and the tags pre-commit gives it from its name and
  content (\<open>python\<close>, \<open>text\<close>, \<open>jupyter\<close> ...). The files of the model are regular files,
  which all carry the tag \<open>file\<close>; symbolic links and submodules, tagged otherwise, are
  outside the model.
\<close>

record changed_file =
  path :: string
  kinds :: "string list"

definition tags :: "changed_file \<Rightarrow> string list" where
  "tags f = ''file'' # kinds f"

text \<open>
  A manifest gives the keys of a hook of a repository; \<open>local\<close> has none. The keys of the
  configuration come first.
\<close>

type_synonym manifest = "string \<Rightarrow> string \<Rightarrow> hook option"

definition first_of :: "'a option \<Rightarrow> 'a option \<Rightarrow> 'a option" where
  "first_of a b = (case a of Some x \<Rightarrow> Some x | None \<Rightarrow> b)"

definition resolve :: "manifest \<Rightarrow> repo \<Rightarrow> hook \<Rightarrow> hook" where
  "resolve mf r h =
     (if url r = ''local'' then h
      else (case mf (url r) (hook_id h) of
              None \<Rightarrow> h
            | Some m \<Rightarrow>
                \<lparr>hook_id = hook_id h,
                 hook_name = first_of (hook_name h) (hook_name m),
                 entry = first_of (entry h) (entry m),
                 language = first_of (language h) (language m),
                 files = first_of (files h) (files m),
                 types = first_of (types h) (types m),
                 args = first_of (args h) (args m),
                 pass_filenames = first_of (pass_filenames h) (pass_filenames m),
                 language_version = first_of (language_version h) (language_version m)\<rparr>))"

text \<open>
  The defaults of pre-commit: \<open>files\<close> matches every path, \<open>types\<close> is \<open>[file]\<close>, \<open>args\<close>
  is empty, \<open>pass_filenames\<close> is true. A hook runs when it selects a file
  (\<open>always_run\<close> is false by default, and no hook here sets it).
\<close>

definition selects :: "hook \<Rightarrow> changed_file \<Rightarrow> bool" where
  "selects h f =
     ((case files h of None \<Rightarrow> True | Some p \<Rightarrow> re_search p (path f)) \<and>
      list_all (\<lambda>t. t \<in> set (tags f)) (case types h of None \<Rightarrow> [''file''] | Some ts \<Rightarrow> ts))"

definition hook_runs :: "hook \<Rightarrow> changed_file list \<Rightarrow> bool" where
  "hook_runs h fs = (filter (selects h) fs \<noteq> [])"

text \<open>
  The command of a hook: the words of its entry, its arguments, and the selected paths
  unless \<open>pass_filenames\<close> is false. A hook without an entry has no command.
\<close>

definition hook_command :: "hook \<Rightarrow> changed_file list \<Rightarrow> string list option" where
  "hook_command h fs =
     (case entry h of
        None \<Rightarrow> None
      | Some e \<Rightarrow>
          (case shell_words e of
             None \<Rightarrow> None
           | Some ws \<Rightarrow>
               Some (ws @ (case args h of None \<Rightarrow> [] | Some as \<Rightarrow> as) @
                     (if pass_filenames h = Some False then []
                      else map path (filter (selects h) fs)))))"

text \<open>The hooks of the configuration with their final keys, in the order they run.\<close>

definition configured :: "manifest \<Rightarrow> hook list" where
  "configured mf = concat (map (\<lambda>r. map (resolve mf r) (hooks r)) config)"

subsection \<open>Running the hooks\<close>

text \<open>
  pre-commit first reads the configuration and the manifests: when a hook has no entry
  (the manifest does not have the hook, or the entry cannot be split into words) it
  stops with status 1 and runs nothing. Otherwise it takes the hooks in order. A hook
  that selects no file is skipped. For a hook that selects one, the command is run once,
  without a shell, and the hook fails when the command returns a status other than 0 or
  when it has modified a file; a hook of language \<open>fail\<close> runs nothing and always
  fails. After a failing hook the next ones still run, unless \<open>fail_fast\<close> is set.
  pre-commit ends with status 1 when some hook failed and with status 0 otherwise. The
  tools are a parameter: the status returned for the words of a command, and whether the
  command modified a file. The result is the hooks that ran, in order, each with
  whether it failed, and the status.

  The configuration has no key at its top level other than \<open>repos\<close>, so \<open>fail_fast\<close>
  has its default.
\<close>

definition fail_fast :: bool where
  "fail_fast = False"

definition hook_fails :: "(string list \<Rightarrow> nat \<times> bool) \<Rightarrow> hook \<Rightarrow> changed_file list \<Rightarrow> bool" where
  "hook_fails tool h fs =
     (language h = Some ''fail'' \<or>
      (case hook_command h fs of
         None \<Rightarrow> True
       | Some ws \<Rightarrow> fst (tool ws) \<noteq> 0 \<or> snd (tool ws)))"

fun run_each :: "(string list \<Rightarrow> nat \<times> bool) \<Rightarrow> bool \<Rightarrow> changed_file list \<Rightarrow> hook list \<Rightarrow>
    (string \<times> bool) list" where
  "run_each tool stop fs [] = []"
| "run_each tool stop fs (h # hs) =
     (if hook_runs h fs
      then (hook_id h, hook_fails tool h fs) #
           (if hook_fails tool h fs \<and> stop then [] else run_each tool stop fs hs)
      else run_each tool stop fs hs)"

definition run_hooks :: "(string list \<Rightarrow> nat \<times> bool) \<Rightarrow> manifest \<Rightarrow> changed_file list \<Rightarrow>
    (string \<times> bool) list \<times> nat" where
  "run_hooks tool mf fs =
     (if list_ex (\<lambda>h. hook_command h fs = None) (configured mf) then ([], 1)
      else (let rs = run_each tool fail_fast fs (configured mf)
            in (rs, if list_ex snd rs then 1 else 0)))"

section \<open>The tutorial notebook (examples/Tutorial2_TrainComplexWaveFunction/tutorial_qubits.ipynb)\<close>

text \<open>
  The code cells of the notebook are straight-line Python that calls into libraries
  (\<open>qucumber\<close>, \<open>torch\<close>, \<open>numpy\<close>, \<open>matplotlib\<close>) whose code is not part of the sources at
  hand. The model keeps the cells as syntax and runs them against a library that is a
  parameter: every operation that leaves the notebook (an import, a lookup in a module,
  an attribute or an item of a library object, a call, an unpacking of a library object)
  is asked of the library, which lets it return or makes it raise. What a library
  operation returns is an object known by where it came from: \<open>Obj n\<close> is the result of
  operation number \<open>n\<close> of the run, counting from 0. Numbers of floating-point literals are kept as the
  decimal fractions written.
\<close>

subsection \<open>Syntax\<close>

datatype expr =
    Str string
  | Num int
  | Dec rat
  | Bool bool
  | Name string
  | Attr expr string
  | Call expr "expr list" "(string \<times> expr) list"
  | Index expr expr
  | List_of "expr list"
  | Tuple_of "expr list"
  | Dict_of "(expr \<times> expr) list"
  | Binop string expr expr

text \<open>
  \<open>Assign\<close> with several names is an unpacking assignment. \<open>Try blk handler\<close> is
  \<open>try: body except: handler\<close>.
\<close>

datatype stmt =
    Import string "string option"
  | From_import string string
  | Assign "string list" expr
  | Expr expr
  | Def string "string list" "stmt list"
  | Return expr
  | Try "stmt list" "stmt list"

subsection \<open>Values, library operations, exceptions\<close>

datatype val =
    S string
  | I int
  | Q rat
  | B bool
  | L "val list"
  | T "val list"
  | D "(val \<times> val) list"
  | Fn string
  | Lib string
  | Member val string
  | Obj nat
  | Item nat nat

text \<open>
  \<open>Fn f\<close> is the function \<open>f\<close> that a cell defines. \<open>Lib m\<close> is the module, class or
  function of a library with the dotted name \<open>m\<close>; \<open>Member v a\<close> is the attribute \<open>a\<close> of
  the object \<open>v\<close>; \<open>Item n i\<close> is the \<open>i\<close>-th of the values that operation \<open>n\<close>, an
  unpacking, gave.
\<close>

datatype op =
    Import_op string
  | Import_from string string
  | Lookup string string
  | Get_attr val string
  | Get_item val val
  | Call_fn string "val list" "(string \<times> val) list"
  | Call_method val string "val list" "(string \<times> val) list"
  | Call_obj val "val list" "(string \<times> val) list"
  | Unpack val nat
  | Binary string val val

datatype exn =
    Name_error string
  | Index_error
  | Key_error
  | Value_error
  | Type_error
  | Syntax_error
  | Unsupported
  | Raised op

text \<open>
  \<open>Raised op\<close> is whatever exception the library raises from \<open>op\<close>. \<open>Unsupported\<close>
  stands for Python of the language above that the notebook never runs and the model
  does not give a meaning to: arithmetic other than the sum of two integers, attributes
  and items of strings and numbers, and a cell calling a function that a cell defines
  (the functions of cell 6 are only handed to the library, which calls them back during
  \<open>fit\<close>; what happens inside a library operation is not traced).
\<close>

record state =
  env :: "(string \<times> val) list"
  count :: nat

text \<open>
  \<open>count\<close> is the number of library operations that have returned. The library says of
  an operation, made after \<open>n\<close> others have returned, whether it returns. A piece of
  program gives the new state, the library operations that it made and that returned,
  in order, and its result or the exception it raised.
\<close>

type_synonym library = "nat \<Rightarrow> op \<Rightarrow> bool"

type_synonym 'a prog = "state \<Rightarrow> state \<times> op list \<times> (exn + 'a)"

definition ret :: "'a \<Rightarrow> 'a prog" where
  "ret v st = (st, [], Inr v)"

definition raise :: "exn \<Rightarrow> 'a prog" where
  "raise x st = (st, [], Inl x)"

text \<open>An exception ends what follows.\<close>

definition andthen :: "'a prog \<Rightarrow> ('a \<Rightarrow> 'b prog) \<Rightarrow> 'b prog" where
  "andthen p k st =
     (case p st of
        (st1, xs, Inl e) \<Rightarrow> (st1, xs, Inl e)
      | (st1, xs, Inr v) \<Rightarrow> (case k v st1 of (st2, ys, r) \<Rightarrow> (st2, xs @ ys, r)))"

definition perform :: "library \<Rightarrow> op \<Rightarrow> nat prog" where
  "perform lib x st =
     (if lib (count st) x
      then (st\<lparr>count := Suc (count st)\<rparr>, [x], Inr (count st))
      else (st, [], Inl (Raised x)))"

definition lookup :: "string \<Rightarrow> val prog" where
  "lookup x st =
     (case map_of (env st) x of
        None \<Rightarrow> (st, [], Inl (Name_error x))
      | Some v \<Rightarrow> (st, [], Inr v))"

definition assign :: "string \<Rightarrow> val \<Rightarrow> unit prog" where
  "assign x v st = (st\<lparr>env := (x, v) # env st\<rparr>, [], Inr ())"

fun assign_all :: "(string \<times> val) list \<Rightarrow> unit prog" where
  "assign_all [] = ret ()"
| "assign_all ((x, v) # xvs) = andthen (assign x v) (\<lambda>u. assign_all xvs)"

subsection \<open>Expressions\<close>

fun from_library :: "val \<Rightarrow> bool" where
  "from_library (Lib m) = True"
| "from_library (Member v a) = True"
| "from_library (Obj n) = True"
| "from_library (Item n i) = True"
| "from_library v = False"

definition dotted :: "string \<Rightarrow> string \<Rightarrow> string" where
  "dotted m a = m @ ''.'' @ a"

definition get_attr :: "library \<Rightarrow> val \<Rightarrow> string \<Rightarrow> val prog" where
  "get_attr lib v a =
     (case v of
        Lib m \<Rightarrow> andthen (perform lib (Lookup m a)) (\<lambda>n. ret (Lib (dotted m a)))
      | _ \<Rightarrow>
          if from_library v then andthen (perform lib (Get_attr v a)) (\<lambda>n. ret (Member v a))
          else raise Unsupported)"

text \<open>A negative index counts from the end; an index out of range raises.\<close>

definition seq_item :: "val list \<Rightarrow> int \<Rightarrow> val prog" where
  "seq_item vs i =
     (let n = int (length vs); j = (if i < 0 then n + i else i)
      in if 0 \<le> j \<and> j < n then ret (vs ! nat j) else raise Index_error)"

definition get_item :: "library \<Rightarrow> val \<Rightarrow> val \<Rightarrow> val prog" where
  "get_item lib v k =
     (case v of
        L vs \<Rightarrow> (case k of I i \<Rightarrow> seq_item vs i | _ \<Rightarrow> raise Type_error)
      | T vs \<Rightarrow> (case k of I i \<Rightarrow> seq_item vs i | _ \<Rightarrow> raise Type_error)
      | D kvs \<Rightarrow> (case map_of kvs k of None \<Rightarrow> raise Key_error | Some w \<Rightarrow> ret w)
      | _ \<Rightarrow>
          if from_library v then andthen (perform lib (Get_item v k)) (\<lambda>n. ret (Obj n))
          else raise Unsupported)"

definition call :: "library \<Rightarrow> val \<Rightarrow> val list \<Rightarrow> (string \<times> val) list \<Rightarrow> val prog" where
  "call lib fv vs kvs =
     (case fv of
        Lib m \<Rightarrow> andthen (perform lib (Call_fn m vs kvs)) (\<lambda>n. ret (Obj n))
      | Member v a \<Rightarrow> andthen (perform lib (Call_method v a vs kvs)) (\<lambda>n. ret (Obj n))
      | Obj m \<Rightarrow> andthen (perform lib (Call_obj fv vs kvs)) (\<lambda>n. ret (Obj n))
      | Item m i \<Rightarrow> andthen (perform lib (Call_obj fv vs kvs)) (\<lambda>n. ret (Obj n))
      | Fn f \<Rightarrow> raise Unsupported
      | _ \<Rightarrow> raise Type_error)"

definition sum_of :: "val \<Rightarrow> val \<Rightarrow> int option" where
  "sum_of x y = (case x of I i \<Rightarrow> (case y of I j \<Rightarrow> Some (i + j) | _ \<Rightarrow> None) | _ \<Rightarrow> None)"

definition binary :: "library \<Rightarrow> string \<Rightarrow> val \<Rightarrow> val \<Rightarrow> val prog" where
  "binary lib b x y =
     (case sum_of x y of
        Some n \<Rightarrow> if b = ''+'' then ret (I n) else raise Unsupported
      | None \<Rightarrow>
          if from_library x \<or> from_library y
          then andthen (perform lib (Binary b x y)) (\<lambda>n. ret (Obj n))
          else raise Unsupported)"

text \<open>
  Python evaluates the callee, then the positional arguments, then the keyword
  arguments, each from left to right, and then calls; a dictionary display evaluates
  key, value, key, value.
\<close>

function eval :: "library \<Rightarrow> expr \<Rightarrow> val prog"
  and eval_list :: "library \<Rightarrow> expr list \<Rightarrow> val list prog"
  and eval_keywords :: "library \<Rightarrow> (string \<times> expr) list \<Rightarrow> (string \<times> val) list prog"
  and eval_items :: "library \<Rightarrow> (expr \<times> expr) list \<Rightarrow> (val \<times> val) list prog"
where
  "eval lib (Str s) = ret (S s)"
| "eval lib (Num i) = ret (I i)"
| "eval lib (Dec q) = ret (Q q)"
| "eval lib (Bool b) = ret (B b)"
| "eval lib (Name x) = lookup x"
| "eval lib (Attr e a) = andthen (eval lib e) (\<lambda>v. get_attr lib v a)"
| "eval lib (Call f es ks) =
     andthen (eval lib f) (\<lambda>fv.
     andthen (eval_list lib es) (\<lambda>vs.
     andthen (eval_keywords lib ks) (\<lambda>kvs. call lib fv vs kvs)))"
| "eval lib (Index e i) =
     andthen (eval lib e) (\<lambda>v. andthen (eval lib i) (\<lambda>k. get_item lib v k))"
| "eval lib (List_of es) = andthen (eval_list lib es) (\<lambda>vs. ret (L vs))"
| "eval lib (Tuple_of es) = andthen (eval_list lib es) (\<lambda>vs. ret (T vs))"
| "eval lib (Dict_of its) = andthen (eval_items lib its) (\<lambda>kvs. ret (D kvs))"
| "eval lib (Binop b x y) =
     andthen (eval lib x) (\<lambda>v. andthen (eval lib y) (\<lambda>w. binary lib b v w))"
| "eval_list lib [] = ret []"
| "eval_list lib (e # es) =
     andthen (eval lib e) (\<lambda>v. andthen (eval_list lib es) (\<lambda>vs. ret (v # vs)))"
| "eval_keywords lib [] = ret []"
| "eval_keywords lib ((k, e) # ks) =
     andthen (eval lib e) (\<lambda>v. andthen (eval_keywords lib ks) (\<lambda>kvs. ret ((k, v) # kvs)))"
| "eval_items lib [] = ret []"
| "eval_items lib ((k, e) # its) =
     andthen (eval lib k) (\<lambda>kv. andthen (eval lib e) (\<lambda>v.
     andthen (eval_items lib its) (\<lambda>kvs. ret ((kv, v) # kvs))))"
  by pat_completeness auto

termination
  by (relation "measure (\<lambda>x. case x of
        Inl (Inl (lib, e)) \<Rightarrow> size e
      | Inl (Inr (lib, es)) \<Rightarrow> size_list size es
      | Inr (Inl (lib, ks)) \<Rightarrow> size_list (size_prod (\<lambda>k. 0) size) ks
      | Inr (Inr (lib, its)) \<Rightarrow> size_list (size_prod size size) its)") auto

subsection \<open>Statements\<close>

text \<open>\<open>import a.b\<close> without \<open>as\<close> binds \<open>a\<close>.\<close>

definition top_package :: "string \<Rightarrow> string" where
  "top_package m = takeWhile (\<lambda>c. c \<noteq> CHR ''.'') m"

text \<open>
  One name takes the value. Several names unpack it: a list or tuple of that length, or
  a library object, which the library unpacks or refuses to.
\<close>

definition unpack :: "library \<Rightarrow> string list \<Rightarrow> val \<Rightarrow> unit prog" where
  "unpack lib xs v =
     (case v of
        L vs \<Rightarrow> if length vs = length xs then assign_all (zip xs vs) else raise Value_error
      | T vs \<Rightarrow> if length vs = length xs then assign_all (zip xs vs) else raise Value_error
      | _ \<Rightarrow>
          if from_library v
          then andthen (perform lib (Unpack v (length xs)))
                 (\<lambda>n. assign_all (zip xs (map (Item n) [0..<length xs])))
          else raise Type_error)"

definition bind_targets :: "library \<Rightarrow> string list \<Rightarrow> val \<Rightarrow> unit prog" where
  "bind_targets lib xs v = (case xs of [x] \<Rightarrow> assign x v | _ \<Rightarrow> unpack lib xs v)"

text \<open>
  A definition binds the name and runs nothing. A \<open>return\<close> outside a function is an
  error. A handler runs when its body raises, whatever was raised.
\<close>

fun exec :: "library \<Rightarrow> stmt \<Rightarrow> unit prog"
  and exec_list :: "library \<Rightarrow> stmt list \<Rightarrow> unit prog"
where
  "exec lib (Import m a) =
     andthen (perform lib (Import_op m))
       (\<lambda>n. case a of Some x \<Rightarrow> assign x (Lib m)
                    | None \<Rightarrow> assign (top_package m) (Lib (top_package m)))"
| "exec lib (From_import m x) =
     andthen (perform lib (Import_from m x)) (\<lambda>n. assign x (Lib (dotted m x)))"
| "exec lib (Assign xs e) = andthen (eval lib e) (\<lambda>v. bind_targets lib xs v)"
| "exec lib (Expr e) = andthen (eval lib e) (\<lambda>v. ret ())"
| "exec lib (Def f ps blk) = assign f (Fn f)"
| "exec lib (Return e) = raise Syntax_error"
| "exec lib (Try blk handler) =
     (\<lambda>st. case exec_list lib blk st of
              (st1, xs, Inl e) \<Rightarrow>
                (case exec_list lib handler st1 of (st2, ys, r) \<Rightarrow> (st2, xs @ ys, r))
            | (st1, xs, Inr u) \<Rightarrow> (st1, xs, Inr u))"
| "exec_list lib [] = ret ()"
| "exec_list lib (s # ss) = andthen (exec lib s) (\<lambda>u. exec_list lib ss)"

fun handler_free :: "stmt \<Rightarrow> bool"
  and handlers_free :: "stmt list \<Rightarrow> bool"
where
  "handler_free (Try blk handler) = False"
| "handler_free (Def f ps blk) = handlers_free blk"
| "handler_free s = True"
| "handlers_free [] = True"
| "handlers_free (s # ss) = (handler_free s \<and> handlers_free ss)"

subsection \<open>The code cells\<close>

text \<open>Cell 1 (lines 38 to 54).\<close>

definition cell_1 :: "stmt list" where
  "cell_1 =
    [Import ''numpy'' (Some ''np''),
     Import ''torch'' None,
     Import ''matplotlib.pyplot'' (Some ''plt''),
     From_import ''qucumber.nn_states'' ''ComplexWaveFunction'',
     From_import ''qucumber.callbacks'' ''MetricEvaluator'',
     Import ''qucumber.utils.unitaries'' (Some ''unitaries''),
     Import ''qucumber.utils.cplx'' (Some ''cplx''),
     Import ''qucumber.utils.training_statistics'' (Some ''ts''),
     Import ''qucumber.utils.data'' (Some ''data''),
     Import ''qucumber'' None,
     Expr (Call (Attr (Name ''qucumber'') ''set_random_seed'') [Num 1234]
       [(''cpu'', Bool True), (''gpu'', Bool False)])]"

text \<open>Cell 2 (lines 84 to 91).\<close>

definition cell_2 :: "stmt list" where
  "cell_2 =
    [Assign [''train_path''] (Str ''qubits_train.txt''),
     Assign [''train_bases_path''] (Str ''qubits_train_bases.txt''),
     Assign [''psi_path''] (Str ''qubits_psi.txt''),
     Assign [''bases_path''] (Str ''qubits_bases.txt''),
     Assign [''train_samples'', ''true_psi'', ''train_bases'', ''bases'']
       (Call (Attr (Name ''data'') ''load_data'')
         [Name ''train_path'', Name ''psi_path'', Name ''train_bases_path'', Name ''bases_path'']
         [])]"

text \<open>Cell 3 (line 109; the rest is a comment).\<close>

definition cell_3 :: "stmt list" where
  "cell_3 = [Assign [''unitary_dict''] (Call (Attr (Name ''unitaries'') ''create_dict'') [] [])]"

text \<open>Cell 4 (lines 130 to 135).\<close>

definition cell_4 :: "stmt list" where
  "cell_4 =
    [Assign [''nv''] (Index (Attr (Name ''train_samples'') ''shape'') (Num (- 1))),
     Assign [''nh''] (Name ''nv''),
     Assign [''nn_state'']
       (Call (Name ''ComplexWaveFunction'') []
         [(''num_visible'', Name ''nv''), (''num_hidden'', Name ''nh''),
          (''unitary_dict'', Name ''unitary_dict''), (''gpu'', Bool False)])]"

text \<open>Cell 5 (lines 163 to 167).\<close>

definition cell_5 :: "stmt list" where
  "cell_5 =
    [Assign [''epochs''] (Num 500),
     Assign [''pbs''] (Num 100),
     Assign [''nbs''] (Name ''pbs''),
     Assign [''lr''] (Dec (1 / 10)),
     Assign [''k''] (Num 10)]"

text \<open>
  Cell 6 (lines 197 to 238): four functions that differ in their name, in the name of
  the result and in the column of \<open>rbm_psi\<close> they read.
\<close>

definition coefficient_norm :: "string \<Rightarrow> string \<Rightarrow> int \<Rightarrow> stmt" where
  "coefficient_norm f r i =
     Def f [''nn_state'', ''space'', ''**kwargs'']
       [Assign [''rbm_psi''] (Call (Attr (Name ''nn_state'') ''psi'') [Name ''space''] []),
        Assign [''normalization'']
          (Call (Attr (Call (Attr (Name ''nn_state'') ''normalization'') [Name ''space''] [])
             ''sqrt_'') [] []),
        Assign [r]
          (Call (Attr (Name ''cplx'') ''norm'')
            [Binop ''/''
               (Call (Attr (Name ''torch'') ''tensor'')
                  [List_of [Index (Index (Name ''rbm_psi'') (Num 0)) (Num i),
                            Index (Index (Name ''rbm_psi'') (Num 1)) (Num i)]]
                  [(''device'', Attr (Name ''nn_state'') ''device'')])
               (Name ''normalization'')]
            []),
        Return (Name r)]"

definition cell_6 :: "stmt list" where
  "cell_6 =
    [coefficient_norm ''alpha'' ''alpha_'' 0,
     coefficient_norm ''beta'' ''beta_'' 1,
     coefficient_norm ''gamma'' ''gamma_'' 2,
     coefficient_norm ''delta'' ''delta_'' 3]"

text \<open>
  Cell 7 (lines 256 to 275). The key of the third metric is \<open>norm\<close> followed by the Greek
  letter alpha, two bytes in UTF-8; the three commented-out entries are not code.
\<close>

definition norm_alpha :: string where
  "norm_alpha = ''norm'' @ [CHR 0xCE, CHR 0xB1]"

definition cell_7 :: "stmt list" where
  "cell_7 =
    [Assign [''period''] (Num 25),
     Assign [''space''] (Call (Attr (Name ''nn_state'') ''generate_hilbert_space'') [] []),
     Assign [''callbacks'']
       (List_of
         [Call (Name ''MetricEvaluator'')
            [Name ''period'',
             Dict_of [(Str ''Fidelity'', Attr (Name ''ts'') ''fidelity''),
                      (Str ''KL'', Attr (Name ''ts'') ''KL''),
                      (Str norm_alpha, Name ''alpha'')]]
            [(''target'', Name ''true_psi''), (''bases'', Name ''bases''),
             (''verbose'', Bool True), (''space'', Name ''space'')]])]"

text \<open>Cell 8 (lines 321 to 331).\<close>

definition cell_8 :: "stmt list" where
  "cell_8 =
    [Expr (Call (Attr (Name ''nn_state'') ''fit'') [Name ''train_samples'']
       [(''epochs'', Name ''epochs''), (''pos_batch_size'', Name ''pbs''),
        (''neg_batch_size'', Name ''nbs''), (''lr'', Name ''lr''), (''k'', Name ''k''),
        (''input_bases'', Name ''train_bases''), (''callbacks'', Name ''callbacks''),
        (''time'', Bool True)])]"

text \<open>Cell 9 (lines 347 to 356).\<close>

definition cell_9 :: "stmt list" where
  "cell_9 =
    [Assign [''fidelities''] (Attr (Index (Name ''callbacks'') (Num 0)) ''Fidelity''),
     Assign [''KLs''] (Index (Index (Name ''callbacks'') (Num 0)) (Str ''KL'')),
     Assign [''coeffs''] (Index (Index (Name ''callbacks'') (Num 0)) (Str norm_alpha)),
     Assign [''epoch'']
       (Call (Attr (Name ''np'') ''arange'')
         [Name ''period'', Binop ''+'' (Name ''epochs'') (Num 1), Name ''period''] [])]"

text \<open>Cell 10 (lines 365 to 381).\<close>

definition cell_10 :: "stmt list" where
  "cell_10 =
    [Assign [''params'']
       (Dict_of
         [(Str ''text.usetex'', Bool True),
          (Str ''font.family'', Str ''serif''),
          (Str ''legend.fontsize'', Num 14),
          (Str ''figure.figsize'', Tuple_of [Num 10, Num 3]),
          (Str ''axes.labelsize'', Num 16),
          (Str ''xtick.labelsize'', Num 14),
          (Str ''ytick.labelsize'', Num 14),
          (Str ''lines.linewidth'', Num 2),
          (Str ''lines.markeredgewidth'', Dec (8 / 10)),
          (Str ''lines.markersize'', Num 5),
          (Str ''lines.marker'', Str ''o''),
          (Str ''patch.edgecolor'', Str ''black'')]),
     Expr (Call (Attr (Attr (Name ''plt'') ''rcParams'') ''update'') [Name ''params''] []),
     Expr (Call (Attr (Attr (Name ''plt'') ''style'') ''use'') [Str ''seaborn-deep''] [])]"

text \<open>Cell 11 (lines 403 to 420).\<close>

definition plot_panel :: "int \<Rightarrow> string \<Rightarrow> string \<Rightarrow> string \<Rightarrow> stmt list" where
  "plot_panel i ys colour label =
    [Assign [''ax''] (Index (Name ''axs'') (Num i)),
     Expr (Call (Attr (Name ''ax'') ''plot'') [Name ''epoch'', Name ys, Str ''o'']
       [(''color'', Str colour), (''markeredgecolor'', Str ''black'')]),
     Expr (Call (Attr (Name ''ax'') ''set_ylabel'') [Str label] []),
     Expr (Call (Attr (Name ''ax'') ''set_xlabel'') [Str ''Epoch''] [])]"

definition alpha_label :: string where
  "alpha_label = ''$'' @ [CHR 0x5C] @ ''vert'' @ [CHR 0x5C] @ ''alpha'' @ [CHR 0x5C] @ ''vert$''"

definition cell_11 :: "stmt list" where
  "cell_11 =
    [Assign [''fig'', ''axs'']
       (Call (Attr (Name ''plt'') ''subplots'') []
         [(''nrows'', Num 1), (''ncols'', Num 3), (''figsize'', Tuple_of [Num 14, Num 3])])] @
    plot_panel 0 ''fidelities'' ''C0'' ''Fidelity'' @
    plot_panel 1 ''KLs'' ''C1'' ''KL Divergence'' @
    plot_panel 2 ''coeffs'' ''C2'' alpha_label @
    [Expr (Call (Attr (Name ''plt'') ''tight_layout'') [] []),
     Expr (Call (Attr (Name ''plt'') ''show'') [] [])]"

text \<open>Cell 12 (line 438).\<close>

definition cell_12 :: "stmt list" where
  "cell_12 = [Expr (Call (Attr (Name ''nn_state'') ''save'') [Str ''saved_params.pt''] [])]"

definition notebook :: "stmt list list" where
  "notebook = [cell_1, cell_2, cell_3, cell_4, cell_5, cell_6, cell_7, cell_8, cell_9, cell_10,
               cell_11, cell_12]"

subsection \<open>Running the notebook\<close>

text \<open>
  The cells run from the first to the last, as the execution counts 1 to 12 stored in the
  file record, in one Python session that starts empty; the run stops at the first
  exception that nothing handles.
\<close>

definition start :: state where
  "start = \<lparr>env = [], count = 0\<rparr>"

definition run_cells :: "library \<Rightarrow> stmt list list \<Rightarrow> state \<times> op list \<times> (exn + unit)" where
  "run_cells lib cs = exec_list lib (concat cs) start"

definition run :: "library \<Rightarrow> state \<times> op list \<times> (exn + unit)" where
  "run lib = run_cells lib notebook"

text \<open>The library that never raises.\<close>

definition always :: library where
  "always n x = True"

text \<open>
  The parts of what a run gives: the last state, the operations that returned, the
  exception if any, and the operations that were made: those that returned, and after
  them the one that raised.
\<close>

definition final :: "state \<times> op list \<times> (exn + unit) \<Rightarrow> state" where
  "final r = fst r"

definition returned :: "state \<times> op list \<times> (exn + 'a) \<Rightarrow> op list" where
  "returned r = fst (snd r)"

definition outcome :: "state \<times> op list \<times> (exn + 'a) \<Rightarrow> exn + 'a" where
  "outcome r = snd (snd r)"

definition attempted :: "state \<times> op list \<times> (exn + 'a) \<Rightarrow> op list" where
  "attempted r = returned r @ (case outcome r of Inl (Raised x) \<Rightarrow> [x] | _ \<Rightarrow> [])"

subsection \<open>The steps of the notebook and the file it saves\<close>

datatype step = Load_data | Build_dictionary | Instantiate_model | Fit | Save

text \<open>
  The five calls that the specification names: the functions by their full names, the
  two methods by theirs.
\<close>

definition step_of :: "op \<Rightarrow> step option" where
  "step_of x =
     (case x of
        Call_fn m vs kvs \<Rightarrow>
          if m = ''qucumber.utils.data.load_data'' then Some Load_data
          else if m = ''qucumber.utils.unitaries.create_dict'' then Some Build_dictionary
          else if m = ''qucumber.nn_states.ComplexWaveFunction'' then Some Instantiate_model
          else None
      | Call_method v a vs kvs \<Rightarrow>
          if a = ''fit'' then Some Fit else if a = ''save'' then Some Save else None
      | _ \<Rightarrow> None)"

definition steps :: "op list \<Rightarrow> step list" where
  "steps xs = List.map_filter step_of xs"

text \<open>
  Modelled from the spec: the save operation of the library (the method \<open>save\<close> of
  \<open>ComplexWaveFunction\<close>, whose code is not among the sources). The specification and the
  last cell of the notebook say that it writes a model-parameter file holding three
  named tensors, \<open>weights\<close>, \<open>visible_bias\<close> and \<open>hidden_bias\<close>. A file is modelled by its
  name and the keys it holds.
\<close>

definition saved_keys :: "string list" where
  "saved_keys = [''weights'', ''visible_bias'', ''hidden_bias'']"

definition file_written :: "op \<Rightarrow> (string \<times> string list) option" where
  "file_written x =
     (case x of
        Call_method v a vs kvs \<Rightarrow>
          (case vs of
             [S f] \<Rightarrow> if a = ''save'' \<and> kvs = [] then Some (f, saved_keys) else None
           | _ \<Rightarrow> None)
      | _ \<Rightarrow> None)"

definition files_written :: "op list \<Rightarrow> (string \<times> string list) list" where
  "files_written xs = List.map_filter file_written xs"

text \<open>The library operations of the run in which the library never raises.\<close>

definition script :: "op list" where
  "script = returned (run always)"

subsection \<open>Comparing a run with the run in which the library never raises\<close>

text \<open>
  \<open>follows p q\<close>: from every state, \<open>p\<close> does what \<open>q\<close> does, or \<open>p\<close> ends with the
  exception of a library operation after making the operations that \<open>q\<close> makes first.
\<close>

definition follows :: "'a prog \<Rightarrow> 'a prog \<Rightarrow> bool" where
  "follows p q =
     (\<forall>st. p st = q st \<or>
        (\<exists>x. outcome (p st) = Inl (Raised x) \<and> prefix (returned (p st) @ [x]) (returned (q st))))"

text \<open>
  \<open>honest lib p\<close>: the operations that \<open>p\<close> reports as returned are those the library let
  return, counted from where \<open>p\<close> started, and an exception of the library is one the
  library raised at that point.
\<close>

definition honest :: "library \<Rightarrow> 'a prog \<Rightarrow> bool" where
  "honest lib p =
     (\<forall>st. count (fst (p st)) = count st + length (returned (p st)) \<and>
        (\<forall>i < length (returned (p st)). lib (count st + i) (returned (p st) ! i)) \<and>
        (\<forall>x. outcome (p st) = Inl (Raised x) \<longrightarrow> \<not> lib (count (fst (p st))) x))"

section \<open>Properties of the Makefile\<close>

lemmas rule_defs = help_rule_def phony_rule_def catch_all_def test_rule_def spelling_rule_def
  linkcheck_rule_def livehtml_rule_def livetest_rule_def

lemmas eval_defs = expand_recipe_def expand_def value_of_def plain_def variables_def
  SPHINXOPTS_def SPHINXAUTO_def continuation_def rule_defs

subsection \<open>Which rule a goal gets\<close>

lemma default_goal_help: "default_goal = Some ''help''"
  by (simp add: default_goal_def rules_def help_rule_def is_pattern_def)

lemma explicit_targets_eq:
  "explicit_targets = [''help'', ''test'', ''spelling'', ''linkcheck'', ''livehtml'', ''livetest'']"
  by (simp add: explicit_targets_def rules_def rule_defs is_pattern_def)

lemma explicit_rule_None: "t \<notin> set explicit_targets \<Longrightarrow> explicit_rule t = None"
  by (auto simp add: explicit_targets_eq explicit_rule_def rules_def rule_defs is_pattern_def)

lemma phony_iff: "phony t \<longleftrightarrow> t \<in> set [''help'', ''Makefile'', ''livehtml'', ''livetest'']"
  by (auto simp add: phony_def rules_def rule_defs)

lemma match_anything: "pattern_match ''%'' t \<longleftrightarrow> t \<noteq> []"
  by (simp add: pattern_match_def is_pattern_def)

lemma implicit_rule_catch_all:
  "t \<noteq> [] \<Longrightarrow> \<not> specific_type iv t \<Longrightarrow> implicit_rule iv t = Some catch_all"
  by (simp add: implicit_rule_def rules_def match_anything)
    (simp add: rule_defs pattern_match_def is_pattern_def)

lemma make_explicit:
  "invoke_make (plain bs) (Some ''help'') = Inr (expand_recipe (plain bs) ''help'' help_rule)"
  "invoke_make (plain bs) (Some ''test'') = Inr (expand_recipe (plain bs) ''test'' test_rule)"
  "invoke_make (plain bs) (Some ''spelling'') = Inr (expand_recipe (plain bs) ''spelling'' spelling_rule)"
  "invoke_make (plain bs) (Some ''linkcheck'') = Inr (expand_recipe (plain bs) ''linkcheck'' linkcheck_rule)"
  "invoke_make (plain bs) (Some ''livehtml'') = Inr (expand_recipe (plain bs) ''livehtml'' livehtml_rule)"
  "invoke_make (plain bs) (Some ''livetest'') = Inr (expand_recipe (plain bs) ''livetest'' livetest_rule)"
  by (simp_all add: invoke_make_def recipe_for_def explicit_rule_def rules_def is_pattern_def rule_defs)

lemma make_catch_all:
  assumes "t \<notin> set explicit_targets" and "t \<noteq> ''Makefile''" and "t \<noteq> []"
    and "\<not> specific_type (plain bs) t"
  shows "invoke_make (plain bs) (Some t) = Inr (expand_recipe (plain bs) t catch_all)"
proof -
  have "\<not> phony t"
    using assms(1,2) by (simp add: phony_iff explicit_targets_eq)
  then show ?thesis
    using assms by (simp add: invoke_make_def recipe_for_def explicit_rule_None implicit_rule_catch_all)
qed

lemma html_is_no_specific_type: "\<not> specific_type (plain [''%.c'', ''%.o'']) ''html''"
  by (simp add: specific_type_def plain_def rules_def rule_defs pattern_match_def is_pattern_def)

subsection \<open>The text and the words of each recipe\<close>

lemma catch_all_text:
  "expand_recipe (plain bs) t catch_all =
     [\<lparr>quiet = True, tolerated = False,
       cmd = ''sphinx-build -M '' @ t @ '' \".\" \"_build\" -j 1 -aT ''\<rparr>]"
  by (simp add: eval_defs)

lemma word_char_plain:
  "word_char c \<Longrightarrow> \<not> blank c \<and> c \<noteq> CHR 0x27 \<and> c \<noteq> CHR 0x22 \<and> c \<noteq> CHR 0x5C"
  by (auto simp add: word_char_def blank_def)

lemma grow_grow: "grow (grow w a) b = grow w (a @ b)"
  by (simp add: grow_def split: option.splits)

lemma shell_split_word:
  "list_all word_char t \<Longrightarrow> t \<noteq> [] \<Longrightarrow>
     shell_split Unquoted w (t @ rest) = shell_split Unquoted (grow w t) rest"
proof (induction t arbitrary: w)
  case Nil
  then show ?case by simp
next
  case (Cons c t)
  have c: "\<not> blank c" "c \<noteq> CHR 0x27" "c \<noteq> CHR 0x22" "c \<noteq> CHR 0x5C"
    using Cons.prems(1) word_char_plain by auto
  show ?case
  proof (cases "t = []")
    case True
    then show ?thesis using c by simp
  next
    case False
    then have "shell_split Unquoted (grow w [c]) (t @ rest) =
        shell_split Unquoted (grow (grow w [c]) t) rest"
      using Cons.IH Cons.prems(1) by simp
    then show ?thesis using c by (simp add: grow_grow)
  qed
qed

lemma plain_word_chars:
  "plain_word t \<Longrightarrow> list_all word_char t \<and> t \<noteq> [] \<and> hd t \<noteq> CHR ''-''"
  by (cases t) auto

lemma option_letters_plain: "plain_word t \<Longrightarrow> option_letters t = []"
  by (cases t rule: option_letters.cases) auto

lemma catch_all_words:
  assumes "plain_word t"
  shows "shell_words (''sphinx-build -M '' @ t @ '' \".\" \"_build\" -j 1 -aT '') =
     Some [''sphinx-build'', ''-M'', t, ''.'', ''_build'', ''-j'', ''1'', ''-aT'']"
  using plain_word_chars [OF assms]
  by (simp add: shell_words_def blank_def grow_def shell_split_word)

lemma words_catch_all:
  assumes "plain_word t"
  shows "map (\<lambda>c. shell_words (cmd c)) (expand_recipe (plain bs) t catch_all) =
     [Some [''sphinx-build'', ''-M'', t, ''.'', ''_build'', ''-j'', ''1'', ''-aT'']]"
  unfolding catch_all_text using catch_all_words [OF assms] by simp

lemma words_explicit:
  "map (\<lambda>c. shell_words (cmd c)) (expand_recipe (plain bs) t help_rule) =
     [Some [''sphinx-build'', ''-M'', ''help'', ''.'', ''_build'', ''-j'', ''1'', ''-aT'']]"
  "map (\<lambda>c. shell_words (cmd c)) (expand_recipe (plain bs) t test_rule) =
     [Some [''sphinx-build'', ''-nW'', ''-b'', ''dummy'', ''.'', ''_build'', ''-j'', ''1'', ''-aT'']]"
  "map (\<lambda>c. shell_words (cmd c)) (expand_recipe (plain bs) t spelling_rule) =
     [Some [''sphinx-build'', ''-M'', ''spelling'', ''.'', ''_build'', ''-j'', ''1'', ''-aT'', ''-W'']]"
  "map (\<lambda>c. shell_words (cmd c)) (expand_recipe (plain bs) t linkcheck_rule) =
     [Some [''sphinx-build'', ''-M'', ''linkcheck'', ''.'', ''_build'', ''-j'', ''1'', ''-aT'', ''-W'']]"
  by (simp_all add: eval_defs shell_words_def blank_def grow_def)

lemma words_live:
  "map (\<lambda>c. shell_words (cmd c)) (expand_recipe (plain bs) t livehtml_rule) =
     [Some [''sphinx-autobuild'', ''-b'', ''html'', ''--watch'', ''../qucumber'', ''--watch'',
        ''../examples'', ''--ignore'', ''*.swp'', ''--ignore'', ''**/.~*.ipynb'', ''--ignore'',
        ''**/*-checkpoint.ipynb'', ''--re-ignore'', ''_examples/*'', ''--ignore'', ''Makefile'',
        ''-j'', ''1'', ''-aT'', ''.'', ''_build/html'']]"
  "map (\<lambda>c. shell_words (cmd c)) (expand_recipe (plain bs) t livetest_rule) =
     [Some [''sphinx-autobuild'', ''-nW'', ''-b'', ''dummy'', ''--watch'', ''../qucumber'',
        ''--watch'', ''../examples'', ''--ignore'', ''*.swp'', ''--ignore'', ''**/.~*.ipynb'',
        ''--ignore'', ''**/*-checkpoint.ipynb'', ''--re-ignore'', ''_examples/*'', ''--ignore'',
        ''Makefile'', ''-j'', ''1'', ''-aT'', ''.'', ''_build'']]"
  by (simp_all add: eval_defs shell_words_def blank_def grow_def)

lemma flags_from_words:
  assumes "invoke_make iv g = Inr cs" and "map (\<lambda>c. shell_words (cmd c)) cs = [Some ws]"
    and "fixed_flags_in ws"
  shows "\<exists>c. invoke_make iv g = Inr [c] \<and> fixed_flags (cmd c)"
  using assms by (cases cs) (auto simp add: fixed_flags_def)

lemma options_from_words:
  assumes "invoke_make iv g = Inr cs" and "map (\<lambda>c. shell_words (cmd c)) cs = [Some ws]"
  shows "\<exists>c. invoke_make iv g = Inr [c] \<and>
     (\<forall>x. has_option x (cmd c) = list_ex (\<lambda>w. x \<in> set (option_letters w)) (tl ws))"
  using assms by (cases cs) (auto simp add: has_option_def)

subsection \<open>The goals\<close>

text \<open>
  C9. Calling make with no goal is calling \<open>make help\<close>, whatever else is on the command
  line: \<open>help\<close> is the first rule of the file.
\<close>

theorem make_without_goal_is_help: "invoke_make iv None = invoke_make iv (Some ''help'')"
  by (simp add: invoke_make_def default_goal_help)

text \<open>
  C1, as the claim states it, fails at the name \<open>Makefile\<close>: it is none of the six targets
  with a rule of their own, and make has no recipe for it ("Nothing to be done"), since
  line 24 declares it phony and a phony target is not looked up among the pattern rules.
\<close>

theorem makefile_goal_not_routed:
  "''Makefile'' \<notin> set explicit_targets \<and> invoke_make (plain []) (Some ''Makefile'') = Inr []"
  by (simp add: explicit_targets_eq invoke_make_def recipe_for_def explicit_rule_def rules_def rule_defs
      phony_def is_pattern_def)

text \<open>
  C1, amended. Called with a goal and nothing else, for every name (not empty) other
  than the six targets with a rule of their own and other than \<open>Makefile\<close>, and that no
  other pattern rule target matches (the built-in rules claim names such as \<open>foo.c\<close>),
  the recipe of the goal is the one line of the catch-all rule: \<open>sphinx-build -M\<close>, the
  name, the source and build directories and \<open>-j 1 -aT\<close>, nothing after. For a name that
  the shell leaves as one word these are the eight words of the command.
\<close>

theorem unknown_goal_runs_sphinx:
  assumes "t \<notin> set explicit_targets" and "t \<noteq> ''Makefile''" and "t \<noteq> []"
    and "\<not> specific_type (plain bs) t"
  shows "\<exists>c. invoke_make (plain bs) (Some t) = Inr [c] \<and> quiet c \<and>
     cmd c = ''sphinx-build -M '' @ t @ '' \".\" \"_build\" -j 1 -aT '' \<and>
     (plain_word t \<longrightarrow>
        shell_words (cmd c) =
          Some [''sphinx-build'', ''-M'', t, ''.'', ''_build'', ''-j'', ''1'', ''-aT''])"
  using make_catch_all [OF assms] catch_all_words [of t]
  by (simp add: catch_all_text)

theorem unknown_goal_runs_sphinx_witness:
  "''html'' \<notin> set explicit_targets \<and> ''html'' \<noteq> ''Makefile'' \<and> ''html'' \<noteq> [] \<and>
   \<not> specific_type (plain [''%.c'', ''%.o'']) ''html'' \<and> plain_word ''html'' \<and>
   (\<exists>c. invoke_make (plain [''%.c'', ''%.o'']) (Some ''html'') = Inr [c] \<and> quiet c \<and>
      cmd c = ''sphinx-build -M html \".\" \"_build\" -j 1 -aT '' \<and>
      shell_words (cmd c) =
        Some [''sphinx-build'', ''-M'', ''html'', ''.'', ''_build'', ''-j'', ''1'', ''-aT''])"
proof -
  have h: "''html'' \<notin> set explicit_targets" "''html'' \<noteq> ''Makefile''" "''html'' \<noteq> []"
    by (simp_all add: explicit_targets_eq)
  have w: "plain_word ''html''"
    by (simp add: word_char_def)
  from unknown_goal_runs_sphinx [OF h html_is_no_specific_type] w
  show ?thesis
    using h html_is_no_specific_type by simp
qed

text \<open>
  C5. Called with a goal and nothing else, for each of the six targets with a rule of
  their own, and for every other goal that reaches the catch-all (here a name the shell
  leaves as one word), the recipe of the goal is one command, and the words of that
  command include \<open>-j 1 -aT\<close>: the builder is asked for one job.
\<close>

theorem every_build_has_fixed_flags:
  assumes "t \<in> set explicit_targets \<or>
           (plain_word t \<and> t \<noteq> ''Makefile'' \<and> \<not> specific_type (plain bs) t)"
  shows "\<exists>c. invoke_make (plain bs) (Some t) = Inr [c] \<and> fixed_flags (cmd c)"
proof (cases "t \<in> set explicit_targets")
  case True
  then have "t = ''help'' \<or> t = ''test'' \<or> t = ''spelling'' \<or> t = ''linkcheck'' \<or>
      t = ''livehtml'' \<or> t = ''livetest''"
    by (simp add: explicit_targets_eq)
  then show ?thesis
  proof (elim disjE)
    assume 1: "t = ''help''"
    show ?thesis unfolding 1
      by (rule flags_from_words [OF make_explicit(1) words_explicit(1)]) simp
  next
    assume 2: "t = ''test''"
    show ?thesis unfolding 2
      by (rule flags_from_words [OF make_explicit(2) words_explicit(2)]) simp
  next
    assume 3: "t = ''spelling''"
    show ?thesis unfolding 3
      by (rule flags_from_words [OF make_explicit(3) words_explicit(3)]) simp
  next
    assume 4: "t = ''linkcheck''"
    show ?thesis unfolding 4
      by (rule flags_from_words [OF make_explicit(4) words_explicit(4)]) simp
  next
    assume 5: "t = ''livehtml''"
    show ?thesis unfolding 5
      by (rule flags_from_words [OF make_explicit(5) words_live(1)]) simp
  next
    assume 6: "t = ''livetest''"
    show ?thesis unfolding 6
      by (rule flags_from_words [OF make_explicit(6) words_live(2)]) simp
  qed
next
  case False
  with assms have t: "plain_word t" "t \<noteq> ''Makefile''" "\<not> specific_type (plain bs) t"
    by auto
  then have "t \<noteq> []" by auto
  show ?thesis
    by (rule flags_from_words [OF make_catch_all [OF False t(2) \<open>t \<noteq> []\<close> t(3)]
          words_catch_all [OF t(1)]]) simp
qed

theorem every_build_has_fixed_flags_witness:
  "''livehtml'' \<in> set explicit_targets \<and>
   (\<exists>c. invoke_make (plain []) (Some ''livehtml'') = Inr [c] \<and> fixed_flags (cmd c)) \<and>
   plain_word ''latexpdf'' \<and> ''latexpdf'' \<noteq> ''Makefile'' \<and>
   \<not> specific_type (plain []) ''latexpdf'' \<and>
   (\<exists>c. invoke_make (plain []) (Some ''latexpdf'') = Inr [c] \<and> fixed_flags (cmd c))"
proof -
  have a: "''livehtml'' \<in> set explicit_targets"
    by (simp add: explicit_targets_eq)
  have b: "plain_word ''latexpdf''" "''latexpdf'' \<noteq> ''Makefile''"
    by (simp_all add: word_char_def)
  have c: "\<not> specific_type (plain []) ''latexpdf''"
    by (simp add: specific_type_def plain_def rules_def rule_defs pattern_match_def is_pattern_def)
  show ?thesis
    using a b c every_build_has_fixed_flags [of "''livehtml''" "[]"]
      every_build_has_fixed_flags [of "''latexpdf''" "[]"]
    by blast
qed

lemma strict_targets:
  assumes "t \<in> set [''test'', ''spelling'', ''linkcheck'', ''livetest'']"
  shows "\<exists>c. invoke_make (plain bs) (Some t) = Inr [c] \<and> has_option (CHR ''W'') (cmd c) \<and>
     (has_option (CHR ''n'') (cmd c) \<longleftrightarrow> t \<in> set [''test'', ''livetest''])"
proof -
  from assms have "t = ''test'' \<or> t = ''spelling'' \<or> t = ''linkcheck'' \<or> t = ''livetest''"
    by simp
  then show ?thesis
  proof (elim disjE)
    assume 1: "t = ''test''"
    from options_from_words [OF make_explicit(2) [of bs] words_explicit(2)]
    show ?thesis unfolding 1 by (elim exE conjE) simp
  next
    assume 2: "t = ''spelling''"
    from options_from_words [OF make_explicit(3) [of bs] words_explicit(3)]
    show ?thesis unfolding 2 by (elim exE conjE) simp
  next
    assume 3: "t = ''linkcheck''"
    from options_from_words [OF make_explicit(4) [of bs] words_explicit(4)]
    show ?thesis unfolding 3 by (elim exE conjE) simp
  next
    assume 4: "t = ''livetest''"
    from options_from_words [OF make_explicit(6) [of bs] words_live(2)]
    show ?thesis unfolding 4 by (elim exE conjE) simp
  qed
qed

lemma lenient_targets:
  assumes "t \<in> set [''help'', ''livehtml''] \<or>
     (plain_word t \<and> t \<notin> set explicit_targets \<and> t \<noteq> ''Makefile'' \<and>
      \<not> specific_type (plain bs) t)"
  shows "\<exists>c. invoke_make (plain bs) (Some t) = Inr [c] \<and> \<not> has_option (CHR ''W'') (cmd c)"
proof -
  from assms have "t = ''help'' \<or> t = ''livehtml'' \<or>
     (plain_word t \<and> t \<notin> set explicit_targets \<and> t \<noteq> ''Makefile'' \<and>
      \<not> specific_type (plain bs) t)"
    by simp
  then show ?thesis
  proof (elim disjE)
    assume 1: "t = ''help''"
    from options_from_words [OF make_explicit(1) [of bs] words_explicit(1)]
    show ?thesis unfolding 1 by (elim exE conjE) simp
  next
    assume 2: "t = ''livehtml''"
    from options_from_words [OF make_explicit(5) [of bs] words_live(1)]
    show ?thesis unfolding 2 by (elim exE conjE) simp
  next
    assume 3: "plain_word t \<and> t \<notin> set explicit_targets \<and> t \<noteq> ''Makefile'' \<and>
      \<not> specific_type (plain bs) t"
    then have t: "plain_word t" "t \<notin> set explicit_targets" "t \<noteq> ''Makefile''"
      "\<not> specific_type (plain bs) t" "t \<noteq> []"
      by auto
    from options_from_words [OF make_catch_all [OF t(2,3,5,4)] words_catch_all [OF t(1)]]
    show ?thesis by (elim exE conjE) (simp add: option_letters_plain [OF t(1)])
  qed
qed

text \<open>
  C8. Called with a goal and nothing else, the recipes of \<open>test\<close>, \<open>spelling\<close>,
  \<open>linkcheck\<close> and \<open>livetest\<close> are each one command that carries the option \<open>-W\<close>, by
  which the builder turns warnings into errors, and \<open>-n\<close> is carried by \<open>test\<close> and
  \<open>livetest\<close> and by neither of the other two; the recipes of \<open>help\<close>, \<open>livehtml\<close>
  and of every goal that reaches the catch-all are one command without \<open>-W\<close>.
\<close>

theorem warnings_as_errors_targets:
  "(t \<in> set [''test'', ''spelling'', ''linkcheck'', ''livetest''] \<longrightarrow>
      (\<exists>c. invoke_make (plain bs) (Some t) = Inr [c] \<and> has_option (CHR ''W'') (cmd c) \<and>
           (has_option (CHR ''n'') (cmd c) \<longleftrightarrow> t \<in> set [''test'', ''livetest'']))) \<and>
   (t \<in> set [''help'', ''livehtml''] \<or>
      (plain_word t \<and> t \<notin> set explicit_targets \<and> t \<noteq> ''Makefile'' \<and>
       \<not> specific_type (plain bs) t) \<longrightarrow>
      (\<exists>c. invoke_make (plain bs) (Some t) = Inr [c] \<and> \<not> has_option (CHR ''W'') (cmd c)))"
  using strict_targets [of t bs] lenient_targets [of t bs] by blast

theorem warnings_as_errors_targets_witness:
  "(''spelling'' \<in> set [''test'', ''spelling'', ''linkcheck'', ''livetest''] \<and>
      (\<exists>c. invoke_make (plain []) (Some ''spelling'') = Inr [c] \<and> has_option (CHR ''W'') (cmd c) \<and>
           \<not> has_option (CHR ''n'') (cmd c))) \<and>
   (''help'' \<in> set [''help'', ''livehtml''] \<and>
      (\<exists>c. invoke_make (plain []) (Some ''help'') = Inr [c] \<and> \<not> has_option (CHR ''W'') (cmd c)))"
  using warnings_as_errors_targets [of "''spelling''" "[]"]
    warnings_as_errors_targets [of "''help''" "[]"]
  by simp

section \<open>Properties of the pre-commit configuration\<close>

subsection \<open>The matcher finds what the pattern matches\<close>


lemma nullable_iff: "nullable r \<longleftrightarrow> [] \<in> lang r"
  by (induction r) (auto intro: star.intros)

lemma lang_alt: "lang (alt r s) = lang r \<union> lang s"
  by (simp add: alt_def)

lemma lang_cat: "lang (cat r s) = lang (Cat r s)"
  by (auto simp add: cat_def)

lemma star_cons:
  "c # w \<in> star A \<longleftrightarrow> (\<exists>u v. w = u @ v \<and> c # u \<in> A \<and> v \<in> star A)"
proof
  assume "c # w \<in> star A"
  then show "\<exists>u v. w = u @ v \<and> c # u \<in> A \<and> v \<in> star A"
  proof (induction "c # w" arbitrary: w rule: star.induct)
    case (star_more u v)
    then show ?case
      by (cases u) auto
  qed
next
  assume "\<exists>u v. w = u @ v \<and> c # u \<in> A \<and> v \<in> star A"
  then obtain u v where "w = u @ v" "c # u \<in> A" "v \<in> star A"
    by blast
  then show "c # w \<in> star A"
    using star_more [of "c # u" A v] by simp
qed

lemma deriv_iff: "w \<in> lang (deriv c r) \<longleftrightarrow> c # w \<in> lang r"
proof (induction r arbitrary: w)
  case (Cat r s)
  show ?case
  proof
    assume "w \<in> lang (deriv c (Cat r s))"
    then have "(\<exists>u v. w = u @ v \<and> c # u \<in> lang r \<and> v \<in> lang s) \<or>
        (nullable r \<and> c # w \<in> lang s)"
      using Cat by (auto simp add: lang_alt lang_cat split: if_splits)
    then show "c # w \<in> lang (Cat r s)"
    proof
      assume "\<exists>u v. w = u @ v \<and> c # u \<in> lang r \<and> v \<in> lang s"
      then obtain u v where "w = u @ v" "c # u \<in> lang r" "v \<in> lang s" by blast
      then have "c # w = (c # u) @ v \<and> c # u \<in> lang r \<and> v \<in> lang s" by simp
      then show ?thesis by (simp del: append_Cons) blast
    next
      assume "nullable r \<and> c # w \<in> lang s"
      then have "c # w = [] @ (c # w) \<and> [] \<in> lang r \<and> c # w \<in> lang s"
        by (simp add: nullable_iff)
      then show ?thesis by (simp del: append_Nil) blast
    qed
  next
    assume "c # w \<in> lang (Cat r s)"
    then obtain u v where uv: "c # w = u @ v" "u \<in> lang r" "v \<in> lang s"
      by auto
    show "w \<in> lang (deriv c (Cat r s))"
    proof (cases u)
      case Nil
      then show ?thesis
        using uv Cat by (auto simp add: lang_alt lang_cat nullable_iff)
    next
      case (Cons a u')
      then have "a = c" "w = u' @ v" "c # u' \<in> lang r"
        using uv by auto
      then show ?thesis
        using uv Cat by (auto simp add: lang_alt lang_cat)
    qed
  qed
next
  case (Star r)
  then show ?case
    by (auto simp add: lang_cat star_cons)
next
  case (Rep1 r)
  show ?case
  proof
    assume "w \<in> lang (deriv c (Rep1 r))"
    then obtain u v where "w = u @ v" "c # u \<in> lang r" "v \<in> star (lang r)"
      using Rep1 by (auto simp add: lang_cat)
    then have "c # w = (c # u) @ v \<and> c # u \<in> lang r \<and> v \<in> star (lang r)" by simp
    then show "c # w \<in> lang (Rep1 r)" by (simp del: append_Cons) blast
  next
    assume "c # w \<in> lang (Rep1 r)"
    then have "c # w \<in> star (lang r)"
      by (auto intro: star.intros)
    then show "w \<in> lang (deriv c (Rep1 r))"
      using Rep1 by (auto simp add: lang_cat star_cons)
  qed
qed (auto simp add: lang_alt)

lemma match_prefix_iff: "match_prefix r s \<longleftrightarrow> (\<exists>u v. s = u @ v \<and> u \<in> lang r)"
proof (induction s arbitrary: r)
  case Nil
  then show ?case by (simp add: nullable_iff)
next
  case (Cons c s)
  show ?case
  proof
    assume "match_prefix r (c # s)"
    then have "[] \<in> lang r \<or> (\<exists>u v. s = u @ v \<and> c # u \<in> lang r)"
      using Cons by (auto simp add: nullable_iff deriv_iff)
    then show "\<exists>u v. c # s = u @ v \<and> u \<in> lang r"
    proof
      assume "[] \<in> lang r"
      then have "c # s = [] @ (c # s) \<and> [] \<in> lang r" by simp
      then show ?thesis by blast
    next
      assume "\<exists>u v. s = u @ v \<and> c # u \<in> lang r"
      then obtain u v where "s = u @ v" "c # u \<in> lang r" by blast
      then have "c # s = (c # u) @ v \<and> c # u \<in> lang r" by simp
      then show ?thesis by blast
    qed
  next
    assume "\<exists>u v. c # s = u @ v \<and> u \<in> lang r"
    then obtain u v where uv: "c # s = u @ v" "u \<in> lang r" by blast
    show "match_prefix r (c # s)"
    proof (cases u)
      case Nil
      then have "[] \<in> lang r" using uv by simp
      then show ?thesis by (simp add: nullable_iff)
    next
      case (Cons a u')
      then have "s = u' @ v" "c # u' \<in> lang r" using uv by auto
      then show ?thesis using Cons.IH by (auto simp add: deriv_iff)
    qed
  qed
qed

lemma lang_chars: "lang (chars s) = {s}"
  by (induction s) auto

lemma star_singletons: "star {[c] | c. P c} = {w. \<forall>c \<in> set w. P c}"
proof (intro set_eqI iffI)
  fix w
  assume "w \<in> star {[c] | c. P c}"
  then show "w \<in> {w. \<forall>c \<in> set w. P c}"
    by (induction rule: star.induct) auto
next
  fix w
  assume "w \<in> {w. \<forall>c \<in> set w. P c}"
  then show "w \<in> star {[c] | c. P c}"
  proof (induction w)
    case Nil
    then show ?case by (simp add: star_empty)
  next
    case (Cons a w)
    then have "[a] \<in> {[c] | c. P c}" "w \<in> star {[c] | c. P c}" by auto
    from star_more [OF this] show ?case by simp
  qed
qed

lemma rep1_singletons:
  "{u @ v | u v. u \<in> {[c] | c. P c} \<and> v \<in> star {[c] | c. P c}} =
     {w. w \<noteq> [] \<and> (\<forall>c \<in> set w. P c)}"
proof (intro set_eqI iffI)
  fix w
  assume "w \<in> {u @ v | u v. u \<in> {[c] | c. P c} \<and> v \<in> star {[c] | c. P c}}"
  then obtain c v where "w = c # v" "P c" "v \<in> star {[c] | c. P c}"
    by auto
  then show "w \<in> {w. w \<noteq> [] \<and> (\<forall>c \<in> set w. P c)}"
    by (simp add: star_singletons)
next
  fix w
  assume "w \<in> {w. w \<noteq> [] \<and> (\<forall>c \<in> set w. P c)}"
  then obtain c v where w: "w = c # v" "P c" "\<forall>x \<in> set v. P x"
    by (cases w) auto
  then have "w = [c] @ v \<and> [c] \<in> {[c] | c. P c} \<and> v \<in> star {[c] | c. P c}"
    by (simp add: star_singletons)
  then show "w \<in> {u @ v | u v. u \<in> {[c] | c. P c} \<and> v \<in> star {[c] | c. P c}}"
    by blast
qed

lemma lang_rep1_dot: "lang (Rep1 Dot) = {w. w \<noteq> [] \<and> CHR 0x0A \<notin> set w}"
  using rep1_singletons [of "\<lambda>c. c \<noteq> CHR 0x0A"] by auto

lemma lang_rep1_not_in: "lang (Rep1 (Not_in cs)) = {w. w \<noteq> [] \<and> set w \<inter> set cs = {}}"
  using rep1_singletons [of "\<lambda>c. c \<notin> set cs"] by auto


subsection \<open>The paths that the pattern of the lint hooks matches\<close>

lemma in_lang_chars_Cat: "w \<in> lang (Cat (chars s) r) \<longleftrightarrow> (\<exists>v. w = s @ v \<and> v \<in> lang r)"
  by (simp add: lang_chars)

lemma in_lang_lit_Cat: "w \<in> lang (Cat (Lit_char c) r) \<longleftrightarrow> (\<exists>v. w = c # v \<and> v \<in> lang r)"
  by simp

lemma in_lang_dots_Cat:
  "w \<in> lang (Cat (Grp (Rep1 Dot)) r) \<longleftrightarrow>
     (\<exists>d v. w = d @ v \<and> d \<noteq> [] \<and> CHR 0x0A \<notin> set d \<and> v \<in> lang r)"
  using lang_rep1_dot by (simp del: lang.simps(9))

lemma in_lang_not_in_Cat:
  "w \<in> lang (Cat (Grp (Rep1 (Not_in cs))) r) \<longleftrightarrow>
     (\<exists>n v. w = n @ v \<and> n \<noteq> [] \<and> set n \<inter> set cs = {} \<and> v \<in> lang r)"
  using lang_rep1_not_in [of cs] by (simp del: lang.simps(9))

lemma in_lang_dot_Cat:
  "w \<in> lang (Cat Dot r) \<longleftrightarrow> (\<exists>c v. w = c # v \<and> c \<noteq> CHR 0x0A \<and> v \<in> lang r)"
proof
  assume "w \<in> lang (Cat Dot r)"
  then show "\<exists>c v. w = c # v \<and> c \<noteq> CHR 0x0A \<and> v \<in> lang r"
    by auto
next
  assume "\<exists>c v. w = c # v \<and> c \<noteq> CHR 0x0A \<and> v \<in> lang r"
  then obtain c v where "w = [c] @ v" "[c] \<in> lang Dot" "v \<in> lang r"
    by auto
  then show "w \<in> lang (Cat Dot r)"
    unfolding lang.simps by blast
qed

lemma examples_notebooks_lang:
  "u \<in> lang (body examples_notebooks) \<longleftrightarrow>
     (\<exists>d n c. u = ''examples/'' @ d @ ''/'' @ n @ c # ''ipynb'' \<and> d \<noteq> [] \<and>
        CHR 0x0A \<notin> set d \<and> n \<noteq> [] \<and> CHR ''/'' \<notin> set n \<and> c \<noteq> CHR 0x0A)"
proof -
  have "u \<in> lang (body examples_notebooks) \<longleftrightarrow>
      (\<exists>v. u = ''examples'' @ v \<and> (\<exists>v1. v = CHR ''/'' # v1 \<and>
        (\<exists>d v2. v1 = d @ v2 \<and> d \<noteq> [] \<and> CHR 0x0A \<notin> set d \<and>
          (\<exists>v3. v2 = CHR ''/'' # v3 \<and>
            (\<exists>n v4. v3 = n @ v4 \<and> n \<noteq> [] \<and> set n \<inter> set ''/'' = {} \<and>
              (\<exists>c v5. v4 = c # v5 \<and> c \<noteq> CHR 0x0A \<and> v5 \<in> lang (chars ''ipynb'')))))))"
    unfolding examples_notebooks_def pattern.simps in_lang_chars_Cat in_lang_lit_Cat
      in_lang_dots_Cat in_lang_not_in_Cat in_lang_dot_Cat ..
  also have "\<dots> \<longleftrightarrow> (\<exists>d n c. u = ''examples/'' @ d @ ''/'' @ n @ c # ''ipynb'' \<and> d \<noteq> [] \<and>
        CHR 0x0A \<notin> set d \<and> n \<noteq> [] \<and> CHR ''/'' \<notin> set n \<and> c \<noteq> CHR 0x0A)"
    unfolding lang_chars by (simp add: ex_simps [symmetric] del: ex_simps)
  finally show ?thesis .
qed

lemma examples_notebooks_paths:
  "re_search examples_notebooks p \<longleftrightarrow>
     (\<exists>d n c rest. p = ''examples/'' @ d @ ''/'' @ n @ c # ''ipynb'' @ rest \<and> d \<noteq> [] \<and>
        CHR 0x0A \<notin> set d \<and> n \<noteq> [] \<and> CHR ''/'' \<notin> set n \<and> c \<noteq> CHR 0x0A)"
  (is "?l \<longleftrightarrow> ?r")
proof -
  have search: "?l \<longleftrightarrow> (\<exists>u v. p = u @ v \<and> u \<in> lang (body examples_notebooks))"
    by (simp add: re_search_def match_prefix_iff) (simp add: examples_notebooks_def)
  show ?thesis
  proof
    assume ?l
    then obtain u v where "p = u @ v" "u \<in> lang (body examples_notebooks)"
      using search by blast
    then obtain d n c where "p = (''examples/'' @ d @ ''/'' @ n @ c # ''ipynb'') @ v"
      and "d \<noteq> []" "CHR 0x0A \<notin> set d" "n \<noteq> []" "CHR ''/'' \<notin> set n" "c \<noteq> CHR 0x0A"
      unfolding examples_notebooks_lang by blast
    then have "p = ''examples/'' @ d @ ''/'' @ n @ c # ''ipynb'' @ v \<and> d \<noteq> [] \<and>
        CHR 0x0A \<notin> set d \<and> n \<noteq> [] \<and> CHR ''/'' \<notin> set n \<and> c \<noteq> CHR 0x0A"
      by simp
    then show ?r by blast
  next
    assume ?r
    then obtain d n c rest where "p = ''examples/'' @ d @ ''/'' @ n @ c # ''ipynb'' @ rest"
      and side: "d \<noteq> []" "CHR 0x0A \<notin> set d" "n \<noteq> []" "CHR ''/'' \<notin> set n" "c \<noteq> CHR 0x0A"
      by blast
    then have "p = (''examples/'' @ d @ ''/'' @ n @ c # ''ipynb'') @ rest"
      by simp
    moreover have "''examples/'' @ d @ ''/'' @ n @ c # ''ipynb'' \<in> lang (body examples_notebooks)"
      unfolding examples_notebooks_lang using side by blast
    ultimately show ?l
      using search by blast
  qed
qed

lemma nested_notebook_matches:
  assumes "d \<noteq> []" and "CHR 0x0A \<notin> set d" and "n \<noteq> []" and "CHR ''/'' \<notin> set n"
  shows "re_search examples_notebooks (''examples/'' @ d @ ''/'' @ n @ ''.ipynb'')"
proof -
  have "''examples/'' @ d @ ''/'' @ n @ ''.ipynb'' =
      ''examples/'' @ d @ ''/'' @ n @ CHR ''.'' # ''ipynb'' @ [] \<and> d \<noteq> [] \<and>
        CHR 0x0A \<notin> set d \<and> n \<noteq> [] \<and> CHR ''/'' \<notin> set n \<and> CHR ''.'' \<noteq> CHR 0x0A"
    using assms by simp
  then show ?thesis
    unfolding examples_notebooks_paths by blast
qed

subsection \<open>The hooks\<close>

lemma pattern_end_not_anchored:
  "re_search examples_notebooks ''examples/data/my_ipynb_utils.py''"
  by (simp add: re_search_def examples_notebooks_def alt_def cat_def)

lemma resolve_local: "resolve mf local_repo h = h"
  by (simp add: resolve_def local_repo_def)

lemma resolve_id: "hook_id (resolve mf r h) = hook_id h"
  by (simp add: resolve_def split: option.splits)

lemma configured_eq:
  "configured mf = [resolve mf pyupgrade_repo pyupgrade, resolve mf black_repo black,
     license_check, lint_examples_flake8, lint_examples_black]"
  by (simp add: configured_def config_def pyupgrade_repo_def black_repo_def resolve_local)
    (simp add: local_repo_def resolve_def)

lemma hook_runs_iff: "hook_runs h fs \<longleftrightarrow> (\<exists>f \<in> set fs. selects h f)"
  by (auto simp add: hook_runs_def filter_empty_conv)

lemma lint_examples_selects:
  "selects lint_examples_flake8 f = re_search examples_notebooks (path f)"
  "selects lint_examples_black f = re_search examples_notebooks (path f)"
  by (simp_all add: selects_def lint_examples_flake8_def lint_examples_black_def no_keys_def
      tags_def)

text \<open>
  C2. Each of the two \<open>lint-examples\<close> hooks runs exactly when the path of some file of
  the change matches \<open>^examples\/(.+)\/([^\/]+).ipynb\<close>; a change with no such path never
  runs them. By \<open>examples_notebooks_paths\<close> the matching paths are those that start with
  \<open>examples/\<close>, a non-empty directory part, a slash, a non-empty name without slash, one
  more character and \<open>ipynb\<close>: every notebook at least one directory below \<open>examples/\<close>
  (\<open>nested_notebook_matches\<close>), and, the dot being unescaped and the end not anchored,
  also paths that merely continue after \<open>ipynb\<close> or have another character for the dot
  (\<open>pattern_end_not_anchored\<close>).
\<close>

theorem lint_examples_hooks_run_iff:
  assumes "h \<in> set (configured mf)"
    and "hook_id h = ''lint-examples-flake8'' \<or> hook_id h = ''lint-examples-black''"
  shows "hook_runs h fs \<longleftrightarrow> (\<exists>f \<in> set fs. re_search examples_notebooks (path f))"
proof -
  have "h = lint_examples_flake8 \<or> h = lint_examples_black"
    using assms
    by (auto simp add: configured_eq resolve_id pyupgrade_def black_def license_check_def
        no_keys_def)
  then show ?thesis
    by (auto simp add: hook_runs_iff lint_examples_selects)
qed


theorem lint_examples_hooks_run_iff_witness:
  "lint_examples_flake8 \<in> set (configured (\<lambda>r i. None)) \<and>
   hook_id lint_examples_flake8 = ''lint-examples-flake8'' \<and>
   hook_runs lint_examples_flake8
     [\<lparr>path = ''docs/Makefile'', kinds = [''makefile'']\<rparr>,
      \<lparr>path = ''examples/Tutorial2_TrainComplexWaveFunction/tutorial_qubits.ipynb'',
       kinds = [''jupyter'']\<rparr>] \<and>
   \<not> hook_runs lint_examples_flake8
     [\<lparr>path = ''docs/Makefile'', kinds = [''makefile'']\<rparr>,
      \<lparr>path = ''examples/README.ipynb'', kinds = [''jupyter'']\<rparr>]"
proof -
  have a: "lint_examples_flake8 \<in> set (configured (\<lambda>r i. None))"
    by (simp add: configured_eq)
  have b: "hook_id lint_examples_flake8 = ''lint-examples-flake8''"
    by (simp add: lint_examples_flake8_def no_keys_def)
  show ?thesis
    using a b lint_examples_hooks_run_iff [OF a, of
        "[\<lparr>path = ''docs/Makefile'', kinds = [''makefile'']\<rparr>,
          \<lparr>path = ''examples/Tutorial2_TrainComplexWaveFunction/tutorial_qubits.ipynb'',
           kinds = [''jupyter'']\<rparr>]"]
      lint_examples_hooks_run_iff [OF a, of
        "[\<lparr>path = ''docs/Makefile'', kinds = [''makefile'']\<rparr>,
          \<lparr>path = ''examples/README.ipynb'', kinds = [''jupyter'']\<rparr>]"]
    by (simp add: re_search_def examples_notebooks_def alt_def cat_def)
qed

lemma command_without_filenames:
  "pass_filenames h = Some False \<Longrightarrow> hook_command h fs = hook_command h fs'"
  by (simp add: hook_command_def)

text \<open>
  C10. For each of the three local hooks, any two changes that make the hook run make
  it run the same command: \<open>pass_filenames\<close> is false, so the selected paths are not
  part of the command.
\<close>

theorem local_hook_command_same:
  assumes "h \<in> set (configured mf)"
    and "hook_id h \<in> set (map hook_id (hooks local_repo))"
    and "hook_runs h fs" and "hook_runs h fs'"
  shows "\<exists>ws. hook_command h fs = Some ws \<and> hook_command h fs' = Some ws"
proof -
  have "h = license_check \<or> h = lint_examples_flake8 \<or> h = lint_examples_black"
    using assms(1,2)
    by (auto simp add: configured_eq resolve_id pyupgrade_def black_def local_repo_def
        license_check_def lint_examples_flake8_def lint_examples_black_def no_keys_def)
  then have "pass_filenames h = Some False \<and> hook_command h [] \<noteq> None"
    by (auto simp add: license_check_def lint_examples_flake8_def lint_examples_black_def
        no_keys_def hook_command_def shell_words_def blank_def grow_def)
  then show ?thesis
    using command_without_filenames [of h fs "[]"] command_without_filenames [of h fs' "[]"]
    by auto
qed

theorem local_hook_command_same_witness:
  "license_check \<in> set (configured (\<lambda>r i. None)) \<and>
   hook_id license_check \<in> set (map hook_id (hooks local_repo)) \<and>
   hook_runs license_check [\<lparr>path = ''tasks.py'', kinds = [''python'', ''text'']\<rparr>] \<and>
   hook_runs license_check
     [\<lparr>path = ''README.md'', kinds = [''markdown'', ''text'']\<rparr>,
      \<lparr>path = ''qucumber/__init__.py'', kinds = [''python'', ''text'']\<rparr>] \<and>
   (\<exists>ws. hook_command license_check [\<lparr>path = ''tasks.py'', kinds = [''python'', ''text'']\<rparr>] =
           Some ws \<and>
         hook_command license_check
           [\<lparr>path = ''README.md'', kinds = [''markdown'', ''text'']\<rparr>,
            \<lparr>path = ''qucumber/__init__.py'', kinds = [''python'', ''text'']\<rparr>] = Some ws)"
proof -
  have a: "license_check \<in> set (configured (\<lambda>r i. None))"
    by (simp add: configured_eq)
  have b: "hook_id license_check \<in> set (map hook_id (hooks local_repo))"
    by (simp add: local_repo_def)
  have c: "hook_runs license_check [\<lparr>path = ''tasks.py'', kinds = [''python'', ''text'']\<rparr>]"
    by (simp add: hook_runs_def selects_def license_check_def no_keys_def tags_def)
  have d: "hook_runs license_check
     [\<lparr>path = ''README.md'', kinds = [''markdown'', ''text'']\<rparr>,
      \<lparr>path = ''qucumber/__init__.py'', kinds = [''python'', ''text'']\<rparr>]"
    by (simp add: hook_runs_def selects_def license_check_def no_keys_def tags_def)
  from local_hook_command_same [OF a b c d] a b c d show ?thesis
    by blast
qed

section \<open>Properties of the notebook\<close>


subsection \<open>A library that raises ends the run where the library that never raises goes on\<close>

lemma follows_refl: "follows p p"
  by (simp add: follows_def)

lemma follows_perform: "follows (perform lib x) (perform always x)"
  by (simp add: follows_def perform_def always_def outcome_def returned_def)

lemma follows_andthen:
  assumes "follows p q" and "\<And>v. follows (k v) (k' v)"
  shows "follows (andthen p k) (andthen q k')"
  unfolding follows_def
proof
  fix st
  obtain s1 xs r1 where p: "p st = (s1, xs, r1)" by (cases "p st")
  obtain s2 ys r2 where q: "q st = (s2, ys, r2)" by (cases "q st")
  from assms(1) have "p st = q st \<or> (\<exists>x. r1 = Inl (Raised x) \<and> prefix (xs @ [x]) ys)"
    using p q by (auto simp add: follows_def outcome_def returned_def dest: spec [of _ st])
  then show "andthen p k st = andthen q k' st \<or>
      (\<exists>x. outcome (andthen p k st) = Inl (Raised x) \<and>
         prefix (returned (andthen p k st) @ [x]) (returned (andthen q k' st)))"
  proof
    assume same: "p st = q st"
    show ?thesis
    proof (cases r1)
      case (Inl e)
      then show ?thesis using p q same by (simp add: andthen_def)
    next
      case (Inr v)
      obtain s3 zs r3 where kv: "k v s1 = (s3, zs, r3)" by (cases "k v s1")
      obtain s4 ws r4 where kv': "k' v s1 = (s4, ws, r4)" by (cases "k' v s1")
      have "k v s1 = k' v s1 \<or> (\<exists>x. r3 = Inl (Raised x) \<and> prefix (zs @ [x]) ws)"
        using assms(2) [of v] kv kv'
        by (auto simp add: follows_def outcome_def returned_def dest: spec [of _ s1])
      then show ?thesis
        using p q same Inr kv kv' by (auto simp add: andthen_def outcome_def returned_def)
    qed
  next
    assume "\<exists>x. r1 = Inl (Raised x) \<and> prefix (xs @ [x]) ys"
    then obtain x where x: "r1 = Inl (Raised x)" "prefix (xs @ [x]) ys"
      by blast
    have "prefix ys (returned (andthen q k' st))"
      using q by (auto simp add: andthen_def returned_def split: sum.splits prod.splits)
    then have "prefix (xs @ [x]) (returned (andthen q k' st))"
      using x(2) prefix_order.trans by blast
    then show ?thesis
      using p x(1) by (simp add: andthen_def outcome_def returned_def)
  qed
qed

lemmas follows_intros = follows_refl follows_perform follows_andthen

lemma follows_get_attr: "follows (get_attr lib v a) (get_attr always v a)"
  by (auto simp add: get_attr_def intro!: follows_intros split: val.splits)

lemma follows_get_item: "follows (get_item lib v k) (get_item always v k)"
  by (auto simp add: get_item_def intro!: follows_intros split: val.splits option.splits)

lemma follows_call: "follows (call lib fv vs kvs) (call always fv vs kvs)"
  by (auto simp add: call_def intro!: follows_intros split: val.splits)

lemma follows_binary: "follows (binary lib b x y) (binary always b x y)"
  by (auto simp add: binary_def intro!: follows_intros split: option.splits)

lemma eval_follows:
  "follows (eval lib e) (eval always e)"
  "follows (eval_list lib es) (eval_list always es)"
  "follows (eval_keywords lib ks) (eval_keywords always ks)"
  "follows (eval_items lib its) (eval_items always its)"
  by (induction lib e and lib es and lib ks and lib its
      rule: eval_eval_list_eval_keywords_eval_items.induct)
    (auto intro!: follows_intros follows_get_attr follows_get_item follows_call follows_binary)

lemma follows_unpack: "follows (unpack lib xs v) (unpack always xs v)"
  by (auto simp add: unpack_def intro!: follows_intros split: val.splits)

lemma follows_bind_targets: "follows (bind_targets lib xs v) (bind_targets always xs v)"
  by (auto simp add: bind_targets_def intro!: follows_intros follows_unpack split: list.splits)

lemma exec_follows:
  "handler_free s \<Longrightarrow> follows (exec lib s) (exec always s)"
  "handlers_free ss \<Longrightarrow> follows (exec_list lib ss) (exec_list always ss)"
  by (induction lib s and lib ss rule: exec_exec_list.induct)
    (auto intro!: follows_intros eval_follows follows_bind_targets split: option.splits)

lemma run_follows:
  assumes "handlers_free (concat cs)"
  shows "run_cells lib cs = run_cells always cs \<or>
     (\<exists>x. outcome (run_cells lib cs) = Inl (Raised x) \<and>
        prefix (returned (run_cells lib cs) @ [x]) (returned (run_cells always cs)))"
  using exec_follows(2) [OF assms, of lib] by (simp add: follows_def run_cells_def)

lemma attempted_prefix:
  assumes "handlers_free (concat cs)" and "outcome (run_cells always cs) = Inr ()"
  shows "prefix (attempted (run_cells lib cs)) (returned (run_cells always cs))"
proof -
  from run_follows [OF assms(1), of lib] show ?thesis
  proof
    assume "run_cells lib cs = run_cells always cs"
    then show ?thesis
      using assms(2) by (simp add: attempted_def)
  next
    assume "\<exists>x. outcome (run_cells lib cs) = Inl (Raised x) \<and>
        prefix (returned (run_cells lib cs) @ [x]) (returned (run_cells always cs))"
    then show ?thesis
      by (auto simp add: attempted_def)
  qed
qed


lemma honest_ret: "honest lib (ret v)"
  by (simp add: honest_def ret_def returned_def outcome_def)

lemma honest_lookup: "honest lib (lookup x)"
  by (simp add: honest_def lookup_def returned_def outcome_def split: option.splits)

lemma honest_assign: "honest lib (assign x v)"
  by (simp add: honest_def assign_def returned_def outcome_def)

lemma honest_perform: "honest lib (perform lib x)"
  by (simp add: honest_def perform_def returned_def outcome_def)

lemma honest_andthen:
  assumes "honest lib p" and "\<And>v. honest lib (k v)"
  shows "honest lib (andthen p k)"
  unfolding honest_def
proof
  fix st
  obtain s1 xs r1 where p: "p st = (s1, xs, r1)" by (cases "p st")
  have hp: "count s1 = count st + length xs" "\<forall>i < length xs. lib (count st + i) (xs ! i)"
    "\<forall>x. r1 = Inl (Raised x) \<longrightarrow> \<not> lib (count s1) x"
    using assms(1) p by (auto simp add: honest_def returned_def outcome_def dest: spec [of _ st])
  show "count (fst (andthen p k st)) = count st + length (returned (andthen p k st)) \<and>
        (\<forall>i < length (returned (andthen p k st)).
            lib (count st + i) (returned (andthen p k st) ! i)) \<and>
        (\<forall>x. outcome (andthen p k st) = Inl (Raised x) \<longrightarrow>
            \<not> lib (count (fst (andthen p k st))) x)"
  proof (cases r1)
    case (Inl e)
    then show ?thesis
      using p hp by (simp add: andthen_def returned_def outcome_def)
  next
    case (Inr v)
    obtain s2 ys r2 where k: "k v s1 = (s2, ys, r2)" by (cases "k v s1")
    have hk: "count s2 = count s1 + length ys" "\<forall>i < length ys. lib (count s1 + i) (ys ! i)"
      "\<forall>x. r2 = Inl (Raised x) \<longrightarrow> \<not> lib (count s2) x"
      using assms(2) [of v] k
      by (auto simp add: honest_def returned_def outcome_def dest: spec [of _ s1])
    have "\<forall>i < length (xs @ ys). lib (count st + i) ((xs @ ys) ! i)"
    proof (intro allI impI)
      fix i
      assume i: "i < length (xs @ ys)"
      show "lib (count st + i) ((xs @ ys) ! i)"
      proof (cases "i < length xs")
        case True
        then show ?thesis using hp(2) by (simp add: nth_append)
      next
        case False
        then have "i - length xs < length ys" using i by auto
        then have "lib (count s1 + (i - length xs)) (ys ! (i - length xs))"
          using hk(2) by blast
        then show ?thesis using False hp(1) by (simp add: nth_append)
      qed
    qed
    then show ?thesis
      using p k Inr hp(1) hk(1,3) by (simp add: andthen_def returned_def outcome_def)
  qed
qed

lemmas honest_intros = honest_ret honest_lookup honest_assign honest_perform honest_andthen

lemma honest_raise: "(\<And>y. x \<noteq> Raised y) \<Longrightarrow> honest lib (raise x)"
  by (simp add: honest_def raise_def returned_def outcome_def)

lemma honest_get_attr: "honest lib (get_attr lib v a)"
  by (auto simp add: get_attr_def intro!: honest_intros honest_raise split: val.splits)

lemma honest_get_item: "honest lib (get_item lib v k)"
  by (auto simp add: get_item_def seq_item_def Let_def intro!: honest_intros honest_raise
      split: val.splits option.splits)

lemma honest_call: "honest lib (call lib fv vs kvs)"
  by (auto simp add: call_def intro!: honest_intros honest_raise split: val.splits)

lemma honest_binary: "honest lib (binary lib b x y)"
  by (auto simp add: binary_def intro!: honest_intros honest_raise split: option.splits)

lemma eval_honest:
  "honest lib (eval lib e)" "honest lib (eval_list lib es)" "honest lib (eval_keywords lib ks)"
  "honest lib (eval_items lib its)"
  by (induction lib e and lib es and lib ks and lib its
      rule: eval_eval_list_eval_keywords_eval_items.induct)
    (auto intro!: honest_intros honest_get_attr honest_get_item honest_call honest_binary)

lemma honest_assign_all: "honest lib (assign_all xvs)"
  by (induction xvs) (auto intro!: honest_intros)

lemma honest_unpack: "honest lib (unpack lib xs v)"
  by (auto simp add: unpack_def intro!: honest_intros honest_raise honest_assign_all
      split: val.splits)

lemma honest_bind_targets: "honest lib (bind_targets lib xs v)"
  by (auto simp add: bind_targets_def intro!: honest_intros honest_unpack split: list.splits)

lemma exec_honest:
  "handler_free s \<Longrightarrow> honest lib (exec lib s)"
  "handlers_free ss \<Longrightarrow> honest lib (exec_list lib ss)"
  by (induction lib s and lib ss rule: exec_exec_list.induct)
    (auto intro!: honest_intros honest_raise eval_honest honest_bind_targets
      split: option.splits)

lemma exec_list_honest_start:
  assumes "handlers_free (concat cs)"
  shows "(\<forall>i < length (returned (run_cells lib cs)). lib i (returned (run_cells lib cs) ! i)) \<and>
     (\<forall>x. outcome (run_cells lib cs) = Inl (Raised x) \<longrightarrow>
        \<not> lib (length (returned (run_cells lib cs))) x)"
  using exec_honest(2) [OF assms, of lib]
  by (auto simp add: honest_def run_cells_def start_def dest: spec [of _ "\<lparr>env = [], count = 0\<rparr>"])

lemma prefix_snoc_nth:
  assumes "prefix (xs @ [x]) ys"
  shows "length xs < length ys \<and> ys ! length xs = x \<and> take (length xs) ys = xs"
proof -
  from assms obtain zs where "ys = (xs @ [x]) @ zs"
    by (auto simp add: prefix_def)
  then show ?thesis by simp
qed

text \<open>
  Where the library first raises, a program without handlers ends, with that exception,
  having made the operations before it and none after.
\<close>

lemma first_refusal_ends_run:
  assumes free: "handlers_free (concat cs)"
    and n: "n < length (returned (run_cells always cs))"
    and before: "\<forall>i < n. lib i (returned (run_cells always cs) ! i)"
    and refused: "\<not> lib n (returned (run_cells always cs) ! n)"
  shows "outcome (run_cells lib cs) = Inl (Raised (returned (run_cells always cs) ! n)) \<and>
     returned (run_cells lib cs) = take n (returned (run_cells always cs))"
proof -
  let ?S = "returned (run_cells always cs)"
  let ?R = "returned (run_cells lib cs)"
  note h = exec_list_honest_start [OF free, of lib]
  from run_follows [OF free, of lib] show ?thesis
  proof
    assume "run_cells lib cs = run_cells always cs"
    then have "lib n (?S ! n)" using h n by auto
    then show ?thesis using refused by simp
  next
    assume "\<exists>x. outcome (run_cells lib cs) = Inl (Raised x) \<and> prefix (?R @ [x]) ?S"
    then obtain x where x: "outcome (run_cells lib cs) = Inl (Raised x)" "prefix (?R @ [x]) ?S"
      by blast
    from prefix_snoc_nth [OF x(2)]
    have m: "length ?R < length ?S" "?S ! length ?R = x" "take (length ?R) ?S = ?R"
      by auto
    have no: "\<not> lib (length ?R) (?S ! length ?R)"
      using h x(1) m(2) by auto
    have "\<not> length ?R < n"
      using before no by auto
    moreover have "\<not> n < length ?R"
    proof
      assume "n < length ?R"
      then have "lib n (?R ! n)" using h by auto
      moreover have "?R ! n = ?S ! n"
        using m(3) \<open>n < length ?R\<close> by (metis nth_take)
      ultimately show False using refused by simp
    qed
    ultimately have "length ?R = n" by auto
    then show ?thesis using x(1) m by auto
  qed
qed

lemma no_refusal_completes:
  assumes free: "handlers_free (concat cs)"
    and ok: "\<forall>i < length (returned (run_cells always cs)). lib i (returned (run_cells always cs) ! i)"
  shows "run_cells lib cs = run_cells always cs"
proof -
  note h = exec_list_honest_start [OF free, of lib]
  from run_follows [OF free, of lib] show ?thesis
  proof
    assume "\<exists>x. outcome (run_cells lib cs) = Inl (Raised x) \<and>
        prefix (returned (run_cells lib cs) @ [x]) (returned (run_cells always cs))"
    then obtain x where x: "outcome (run_cells lib cs) = Inl (Raised x)"
      "prefix (returned (run_cells lib cs) @ [x]) (returned (run_cells always cs))"
      by blast
    from prefix_snoc_nth [OF x(2)] h x(1) ok show ?thesis
      by auto
  qed
qed

lemma completed_run:
  assumes "handlers_free (concat cs)" and "outcome (run_cells lib cs) = Inr ()"
  shows "run_cells lib cs = run_cells always cs"
  using run_follows [OF assms(1), of lib] assms(2) by auto

lemma steps_append: "steps (xs @ ys) = steps xs @ steps ys"
  by (simp add: steps_def map_filter_def)

lemma files_written_append: "files_written (xs @ ys) = files_written xs @ files_written ys"
  by (simp add: files_written_def map_filter_def)

lemma prefix_steps: "prefix xs ys \<Longrightarrow> prefix (steps xs) (steps ys)"
  by (auto simp add: prefix_def steps_append)

lemma prefix_filter: "prefix xs ys \<Longrightarrow> prefix (filter P xs) (filter P ys)"
  by (auto simp add: prefix_def)

lemma prefix_files_written: "prefix xs ys \<Longrightarrow> prefix (files_written xs) (files_written ys)"
  by (auto simp add: prefix_def files_written_append)

subsection \<open>The run of the notebook\<close>

lemmas cell_defs = cell_1_def cell_2_def cell_3_def cell_4_def cell_5_def cell_6_def cell_7_def
  cell_8_def cell_9_def cell_10_def cell_11_def cell_12_def coefficient_norm_def plot_panel_def

lemma notebook_handlers_free: "handlers_free (concat notebook)"
  by (simp add: notebook_def cell_defs)

lemma two_cells_handlers_free: "handlers_free (concat (take 2 notebook))"
  by (simp add: notebook_def cell_defs)

text \<open>What the run gives when the library never raises: computed by the kernel.\<close>

lemma full_run:
  "run always =
   (\<lparr>env =
        [(''ax'', Obj 55), (''ax'', Obj 48), (''ax'', Obj 41),
         (''axs'', Item 40 1), (''fig'', Item 40 0),
         (''params'',
          D [(S ''text.usetex'', B True), (S ''font.family'', S ''serif''),
             (S ''legend.fontsize'', I 14),
             (S ''figure.figsize'', T [I 10, I 3]),
             (S ''axes.labelsize'', I 16), (S ''xtick.labelsize'', I 14),
             (S ''ytick.labelsize'', I 14), (S ''lines.linewidth'', I 2),
             (S ''lines.markeredgewidth'', Q (4 / 5)),
             (S ''lines.markersize'', I 5), (S ''lines.marker'', S ''o''),
             (S ''patch.edgecolor'', S ''black'')]),
         (''epoch'', Obj 31), (''coeffs'', Obj 29), (''KLs'', Obj 28),
         (''fidelities'', Member (Obj 24) ''Fidelity''),
         (''callbacks'', L [Obj 24]), (''space'', Obj 21), (''period'', I 25),
         (''delta'', Fn ''delta''), (''gamma'', Fn ''gamma''),
         (''beta'', Fn ''beta''), (''alpha'', Fn ''alpha''), (''k'', I 10),
         (''lr'', Q (1 / 10)), (''nbs'', I 100), (''pbs'', I 100),
         (''epochs'', I 500), (''nn_state'', Obj 19), (''nh'', Obj 18),
         (''nv'', Obj 18), (''unitary_dict'', Obj 16), (''bases'', Item 14 3),
         (''train_bases'', Item 14 2), (''true_psi'', Item 14 1),
         (''train_samples'', Item 14 0),
         (''bases_path'', S ''qubits_bases.txt''),
         (''psi_path'', S ''qubits_psi.txt''),
         (''train_bases_path'', S ''qubits_train_bases.txt''),
         (''train_path'', S ''qubits_train.txt''),
         (''qucumber'', Lib ''qucumber''),
         (''data'', Lib ''qucumber.utils.data''),
         (''ts'', Lib ''qucumber.utils.training_statistics''),
         (''cplx'', Lib ''qucumber.utils.cplx''),
         (''unitaries'', Lib ''qucumber.utils.unitaries''),
         (''MetricEvaluator'', Lib ''qucumber.callbacks.MetricEvaluator''),
         (''ComplexWaveFunction'',
          Lib ''qucumber.nn_states.ComplexWaveFunction''),
         (''plt'', Lib ''matplotlib.pyplot''), (''torch'', Lib ''torch''),
         (''np'', Lib ''numpy'')],
        count = 68\<rparr>,
     [Import_op ''numpy'', Import_op ''torch'',
      Import_op ''matplotlib.pyplot'',
      Import_from ''qucumber.nn_states'' ''ComplexWaveFunction'',
      Import_from ''qucumber.callbacks'' ''MetricEvaluator'',
      Import_op ''qucumber.utils.unitaries'',
      Import_op ''qucumber.utils.cplx'',
      Import_op ''qucumber.utils.training_statistics'',
      Import_op ''qucumber.utils.data'', Import_op ''qucumber'',
      Lookup ''qucumber'' ''set_random_seed'',
      Call_fn ''qucumber.set_random_seed'' [I 1234]
       [(''cpu'', B True), (''gpu'', B False)],
      Lookup ''qucumber.utils.data'' ''load_data'',
      Call_fn ''qucumber.utils.data.load_data''
       [S ''qubits_train.txt'', S ''qubits_psi.txt'',
        S ''qubits_train_bases.txt'', S ''qubits_bases.txt'']
       [],
      Unpack (Obj 13) 4, Lookup ''qucumber.utils.unitaries'' ''create_dict'',
      Call_fn ''qucumber.utils.unitaries.create_dict'' [] [],
      Get_attr (Item 14 0) ''shape'',
      Get_item (Member (Item 14 0) ''shape'') (I (- 1)),
      Call_fn ''qucumber.nn_states.ComplexWaveFunction'' []
       [(''num_visible'', Obj 18), (''num_hidden'', Obj 18),
        (''unitary_dict'', Obj 16), (''gpu'', B False)],
      Get_attr (Obj 19) ''generate_hilbert_space'',
      Call_method (Obj 19) ''generate_hilbert_space'' [] [],
      Lookup ''qucumber.utils.training_statistics'' ''fidelity'',
      Lookup ''qucumber.utils.training_statistics'' ''KL'',
      Call_fn ''qucumber.callbacks.MetricEvaluator''
       [I 25,
        D [(S ''Fidelity'',
            Lib ''qucumber.utils.training_statistics.fidelity''),
           (S ''KL'', Lib ''qucumber.utils.training_statistics.KL''),
           (S [CHR ''n'', CHR ''o'', CHR ''r'', CHR ''m'', CHR 0xCE, CHR 0xB1],
            Fn ''alpha'')]]
       [(''target'', Item 14 1), (''bases'', Item 14 3), (''verbose'', B True),
        (''space'', Obj 21)],
      Get_attr (Obj 19) ''fit'',
      Call_method (Obj 19) ''fit'' [Item 14 0]
       [(''epochs'', I 500), (''pos_batch_size'', I 100),
        (''neg_batch_size'', I 100), (''lr'', Q (1 / 10)), (''k'', I 10),
        (''input_bases'', Item 14 2), (''callbacks'', L [Obj 24]),
        (''time'', B True)],
      Get_attr (Obj 24) ''Fidelity'', Get_item (Obj 24) (S ''KL''),
      Get_item (Obj 24)
       (S [CHR ''n'', CHR ''o'', CHR ''r'', CHR ''m'', CHR 0xCE, CHR 0xB1]),
      Lookup ''numpy'' ''arange'',
      Call_fn ''numpy.arange'' [I 25, I 501, I 25] [],
      Lookup ''matplotlib.pyplot'' ''rcParams'',
      Lookup ''matplotlib.pyplot.rcParams'' ''update'',
      Call_fn ''matplotlib.pyplot.rcParams.update''
       [D [(S ''text.usetex'', B True), (S ''font.family'', S ''serif''),
           (S ''legend.fontsize'', I 14),
           (S ''figure.figsize'', T [I 10, I 3]), (S ''axes.labelsize'', I 16),
           (S ''xtick.labelsize'', I 14), (S ''ytick.labelsize'', I 14),
           (S ''lines.linewidth'', I 2),
           (S ''lines.markeredgewidth'', Q (4 / 5)),
           (S ''lines.markersize'', I 5), (S ''lines.marker'', S ''o''),
           (S ''patch.edgecolor'', S ''black'')]]
       [],
      Lookup ''matplotlib.pyplot'' ''style'',
      Lookup ''matplotlib.pyplot.style'' ''use'',
      Call_fn ''matplotlib.pyplot.style.use'' [S ''seaborn-deep''] [],
      Lookup ''matplotlib.pyplot'' ''subplots'',
      Call_fn ''matplotlib.pyplot.subplots'' []
       [(''nrows'', I 1), (''ncols'', I 3), (''figsize'', T [I 14, I 3])],
      Unpack (Obj 39) 2, Get_item (Item 40 1) (I 0),
      Get_attr (Obj 41) ''plot'',
      Call_method (Obj 41) ''plot''
       [Obj 31, Member (Obj 24) ''Fidelity'', S ''o'']
       [(''color'', S ''C0''), (''markeredgecolor'', S ''black'')],
      Get_attr (Obj 41) ''set_ylabel'',
      Call_method (Obj 41) ''set_ylabel'' [S ''Fidelity''] [],
      Get_attr (Obj 41) ''set_xlabel'',
      Call_method (Obj 41) ''set_xlabel'' [S ''Epoch''] [],
      Get_item (Item 40 1) (I 1), Get_attr (Obj 48) ''plot'',
      Call_method (Obj 48) ''plot'' [Obj 31, Obj 28, S ''o'']
       [(''color'', S ''C1''), (''markeredgecolor'', S ''black'')],
      Get_attr (Obj 48) ''set_ylabel'',
      Call_method (Obj 48) ''set_ylabel'' [S ''KL Divergence''] [],
      Get_attr (Obj 48) ''set_xlabel'',
      Call_method (Obj 48) ''set_xlabel'' [S ''Epoch''] [],
      Get_item (Item 40 1) (I 2), Get_attr (Obj 55) ''plot'',
      Call_method (Obj 55) ''plot'' [Obj 31, Obj 29, S ''o'']
       [(''color'', S ''C2''), (''markeredgecolor'', S ''black'')],
      Get_attr (Obj 55) ''set_ylabel'',
      Call_method (Obj 55) ''set_ylabel''
       [S [CHR ''$'', CHR 0x5C, CHR ''v'', CHR ''e'', CHR ''r'', CHR ''t'',
           CHR 0x5C, CHR ''a'', CHR ''l'', CHR ''p'', CHR ''h'', CHR ''a'',
           CHR 0x5C, CHR ''v'', CHR ''e'', CHR ''r'', CHR ''t'', CHR ''$'']]
       [],
      Get_attr (Obj 55) ''set_xlabel'',
      Call_method (Obj 55) ''set_xlabel'' [S ''Epoch''] [],
      Lookup ''matplotlib.pyplot'' ''tight_layout'',
      Call_fn ''matplotlib.pyplot.tight_layout'' [] [],
      Lookup ''matplotlib.pyplot'' ''show'',
      Call_fn ''matplotlib.pyplot.show'' [] [], Get_attr (Obj 19) ''save'',
      Call_method (Obj 19) ''save'' [S ''saved_params.pt''] []],
     Inr ())"
  by code_simp

lemma two_cells_run:
  "run_cells always (take 2 notebook) =
   (\<lparr>env =
        [(''bases'', Item 14 3), (''train_bases'', Item 14 2),
         (''true_psi'', Item 14 1), (''train_samples'', Item 14 0),
         (''bases_path'', S ''qubits_bases.txt''),
         (''psi_path'', S ''qubits_psi.txt''),
         (''train_bases_path'', S ''qubits_train_bases.txt''),
         (''train_path'', S ''qubits_train.txt''),
         (''qucumber'', Lib ''qucumber''),
         (''data'', Lib ''qucumber.utils.data''),
         (''ts'', Lib ''qucumber.utils.training_statistics''),
         (''cplx'', Lib ''qucumber.utils.cplx''),
         (''unitaries'', Lib ''qucumber.utils.unitaries''),
         (''MetricEvaluator'', Lib ''qucumber.callbacks.MetricEvaluator''),
         (''ComplexWaveFunction'',
          Lib ''qucumber.nn_states.ComplexWaveFunction''),
         (''plt'', Lib ''matplotlib.pyplot''), (''torch'', Lib ''torch''),
         (''np'', Lib ''numpy'')],
        count = 15\<rparr>,
     [Import_op ''numpy'', Import_op ''torch'',
      Import_op ''matplotlib.pyplot'',
      Import_from ''qucumber.nn_states'' ''ComplexWaveFunction'',
      Import_from ''qucumber.callbacks'' ''MetricEvaluator'',
      Import_op ''qucumber.utils.unitaries'',
      Import_op ''qucumber.utils.cplx'',
      Import_op ''qucumber.utils.training_statistics'',
      Import_op ''qucumber.utils.data'', Import_op ''qucumber'',
      Lookup ''qucumber'' ''set_random_seed'',
      Call_fn ''qucumber.set_random_seed'' [I 1234]
       [(''cpu'', B True), (''gpu'', B False)],
      Lookup ''qucumber.utils.data'' ''load_data'',
      Call_fn ''qucumber.utils.data.load_data''
       [S ''qubits_train.txt'', S ''qubits_psi.txt'',
        S ''qubits_train_bases.txt'', S ''qubits_bases.txt'']
       [],
      Unpack (Obj 13) 4],
     Inr ())"
  by code_simp

lemma run_always_completes: "outcome (run always) = Inr ()"
  by (simp add: full_run outcome_def)

lemma script_steps: "steps script = [Load_data, Build_dictionary, Instantiate_model, Fit, Save]"
  by (simp add: script_def full_run returned_def steps_def step_of_def map_filter_simps)

lemma script_step_calls:
  "filter (\<lambda>x. step_of x \<noteq> None) script =
     [Call_fn ''qucumber.utils.data.load_data''
        [S ''qubits_train.txt'', S ''qubits_psi.txt'', S ''qubits_train_bases.txt'',
         S ''qubits_bases.txt''] [],
      Call_fn ''qucumber.utils.unitaries.create_dict'' [] [],
      Call_fn ''qucumber.nn_states.ComplexWaveFunction'' []
        [(''num_visible'', Obj 18), (''num_hidden'', Obj 18), (''unitary_dict'', Obj 16),
         (''gpu'', B False)],
      Call_method (Obj 19) ''fit'' [Item 14 0]
        [(''epochs'', I 500), (''pos_batch_size'', I 100), (''neg_batch_size'', I 100),
         (''lr'', Q (1 / 10)), (''k'', I 10), (''input_bases'', Item 14 2),
         (''callbacks'', L [Obj 24]), (''time'', B True)],
      Call_method (Obj 19) ''save'' [S ''saved_params.pt''] []]"
  by (simp add: script_def full_run returned_def step_of_def)

lemma script_load_calls:
  "filter (\<lambda>x. step_of x = Some Load_data) script =
     [Call_fn ''qucumber.utils.data.load_data''
        [S ''qubits_train.txt'', S ''qubits_psi.txt'', S ''qubits_train_bases.txt'',
         S ''qubits_bases.txt''] []]"
  by (simp add: script_def full_run returned_def step_of_def)

lemma script_files_written:
  "files_written script = [(''saved_params.pt'', saved_keys)]"
  by (simp add: script_def full_run returned_def files_written_def file_written_def
      map_filter_simps)

lemma script_last: "last script = Call_method (Obj 19) ''save'' [S ''saved_params.pt''] []"
  by (simp add: script_def full_run returned_def)

lemma attempted_prefix_script: "prefix (attempted (run lib)) script"
  using attempted_prefix [OF notebook_handlers_free, of lib] run_always_completes
  by (simp add: run_def script_def)

lemma returned_prefix_script: "prefix (returned (run lib)) script"
  using attempted_prefix_script [of lib] by (auto simp add: attempted_def prefix_def)

lemma completed_notebook: "outcome (run lib) = Inr () \<Longrightarrow> run lib = run always"
  using completed_run [OF notebook_handlers_free, of lib] by (simp add: run_def)

subsection \<open>The claims about the notebook\<close>

lemma prefix_of_five:
  assumes "prefix zs [a, b, c, d, e]"
  shows "zs = [] \<or> zs = [a] \<or> zs = [a, b] \<or> zs = [a, b, c] \<or> zs = [a, b, c, d] \<or>
     zs = [a, b, c, d, e]"
proof -
  from assms have "zs \<in> set (prefixes [a, b, c, d, e])"
    by (simp only: in_set_prefixes)
  then show ?thesis by auto
qed

lemma steps_attempted:
  "\<exists>u. steps (attempted r) = steps (returned r) @ u \<and> length u \<le> 1"
  by (auto simp add: attempted_def steps_append steps_def map_filter_def
      split: sum.splits exn.splits)

text \<open>
  C4. Whatever the library does, the five calls are made in the order load data, build
  the dictionary, instantiate the model, fit, save, each at most once, the run ending at
  the first that raises: the calls made are the first few of the five. When \<open>save\<close> is
  called, \<open>fit\<close> has returned. A run that ends without exception has made all five:
  \<open>fit\<close> and \<open>save\<close> on the object that the instantiation (operation 19) returned,
  \<open>fit\<close> with the first of the values unpacked from what \<open>load_data\<close> returned.
\<close>

theorem notebook_steps_in_order:
  "prefix (steps (attempted (run lib)))
     [Load_data, Build_dictionary, Instantiate_model, Fit, Save] \<and>
   (Save \<in> set (steps (attempted (run lib))) \<longrightarrow> Fit \<in> set (steps (returned (run lib)))) \<and>
   (outcome (run lib) = Inr () \<longrightarrow>
      steps (returned (run lib)) = [Load_data, Build_dictionary, Instantiate_model, Fit, Save] \<and>
      filter (\<lambda>x. step_of x \<noteq> None) (returned (run lib)) =
        [Call_fn ''qucumber.utils.data.load_data''
           [S ''qubits_train.txt'', S ''qubits_psi.txt'', S ''qubits_train_bases.txt'',
            S ''qubits_bases.txt''] [],
         Call_fn ''qucumber.utils.unitaries.create_dict'' [] [],
         Call_fn ''qucumber.nn_states.ComplexWaveFunction'' []
           [(''num_visible'', Obj 18), (''num_hidden'', Obj 18), (''unitary_dict'', Obj 16),
            (''gpu'', B False)],
         Call_method (Obj 19) ''fit'' [Item 14 0]
           [(''epochs'', I 500), (''pos_batch_size'', I 100), (''neg_batch_size'', I 100),
            (''lr'', Q (1 / 10)), (''k'', I 10), (''input_bases'', Item 14 2),
            (''callbacks'', L [Obj 24]), (''time'', B True)],
         Call_method (Obj 19) ''save'' [S ''saved_params.pt''] []])"
proof (intro conjI impI)
  show p: "prefix (steps (attempted (run lib)))
     [Load_data, Build_dictionary, Instantiate_model, Fit, Save]"
    using prefix_steps [OF attempted_prefix_script [of lib]] by (simp add: script_steps)
  show "Fit \<in> set (steps (returned (run lib)))" if "Save \<in> set (steps (attempted (run lib)))"
  proof -
    from prefix_of_five [OF p] that
    have all: "steps (attempted (run lib)) =
        [Load_data, Build_dictionary, Instantiate_model, Fit, Save]"
      by auto
    obtain u where u: "steps (attempted (run lib)) = steps (returned (run lib)) @ u"
      "length u \<le> 1"
      using steps_attempted [of "run lib"] by blast
    show ?thesis
    proof (cases u)
      case Nil
      then show ?thesis using all u by simp
    next
      case (Cons s u')
      then have "u = [s]" using u(2) by simp
      then have "steps (returned (run lib)) @ [s] =
          [Load_data, Build_dictionary, Instantiate_model, Fit] @ [Save]"
        using all u(1) by simp
      then have "steps (returned (run lib)) = [Load_data, Build_dictionary, Instantiate_model, Fit]"
        by (simp only: append1_eq_conv)
      then show ?thesis by simp
    qed
  qed
  show "steps (returned (run lib)) = [Load_data, Build_dictionary, Instantiate_model, Fit, Save]"
    if "outcome (run lib) = Inr ()"
    using completed_notebook [OF that] script_steps by (simp add: script_def)
  show "filter (\<lambda>x. step_of x \<noteq> None) (returned (run lib)) =
        [Call_fn ''qucumber.utils.data.load_data''
           [S ''qubits_train.txt'', S ''qubits_psi.txt'', S ''qubits_train_bases.txt'',
            S ''qubits_bases.txt''] [],
         Call_fn ''qucumber.utils.unitaries.create_dict'' [] [],
         Call_fn ''qucumber.nn_states.ComplexWaveFunction'' []
           [(''num_visible'', Obj 18), (''num_hidden'', Obj 18), (''unitary_dict'', Obj 16),
            (''gpu'', B False)],
         Call_method (Obj 19) ''fit'' [Item 14 0]
           [(''epochs'', I 500), (''pos_batch_size'', I 100), (''neg_batch_size'', I 100),
            (''lr'', Q (1 / 10)), (''k'', I 10), (''input_bases'', Item 14 2),
            (''callbacks'', L [Obj 24]), (''time'', B True)],
         Call_method (Obj 19) ''save'' [S ''saved_params.pt''] []]"
    if "outcome (run lib) = Inr ()"
    using completed_notebook [OF that] script_step_calls by (simp add: script_def)
qed

theorem notebook_steps_in_order_witness:
  "outcome (run always) = Inr () \<and>
   steps (returned (run always)) = [Load_data, Build_dictionary, Instantiate_model, Fit, Save] \<and>
   Save \<in> set (steps (attempted (run always))) \<and> Fit \<in> set (steps (returned (run always)))"
proof -
  have "attempted (run always) = returned (run always)"
    using run_always_completes by (simp add: attempted_def)
  then show ?thesis
    using notebook_steps_in_order [of always] run_always_completes by simp
qed

lemma script_model:
  "script ! 19 =
     Call_fn ''qucumber.nn_states.ComplexWaveFunction'' []
       [(''num_visible'', Obj 18), (''num_hidden'', Obj 18), (''unitary_dict'', Obj 16),
        (''gpu'', B False)]"
  by (simp add: script_def full_run returned_def)

lemma two_cells_facts:
  "outcome (run_cells always (take 2 notebook)) = Inr ()"
  "returned (run_cells always (take 2 notebook)) ! 13 =
     Call_fn ''qucumber.utils.data.load_data''
       [S ''qubits_train.txt'', S ''qubits_psi.txt'', S ''qubits_train_bases.txt'',
        S ''qubits_bases.txt''] []"
  "returned (run_cells always (take 2 notebook)) ! 14 = Unpack (Obj 13) 4"
  "map (map_of (env (final (run_cells always (take 2 notebook)))))
     [''train_samples'', ''true_psi'', ''train_bases'', ''bases''] =
     [Some (Item 14 0), Some (Item 14 1), Some (Item 14 2), Some (Item 14 3)]"
  by (simp_all add: two_cells_run outcome_def returned_def final_def)


lemma prefix_of_one:
  assumes "prefix zs [a]"
  shows "zs = [] \<or> zs = [a]"
proof -
  from assms have "zs \<in> set (prefixes [a])"
    by (simp only: in_set_prefixes)
  then show ?thesis by auto
qed

text \<open>
  C6. The notebook loads data in one call, \<open>load_data\<close> of \<open>qucumber.utils.data\<close>, whose
  four arguments are the names of the sample file, the amplitude file, the file of the
  bases of the samples and the file of the unique bases, in this order: whatever the
  library does, that call is the only data-loading call a run makes, and a run that ends
  without exception has made it. When the first two cells end without exception, the
  result of the call (operation 13) has been unpacked into four values (operation 14),
  bound to \<open>train_samples\<close>, \<open>true_psi\<close>, \<open>train_bases\<close> and \<open>bases\<close>.
\<close>

theorem load_data_reads_four_files:
  "filter (\<lambda>x. step_of x = Some Load_data) (attempted (run lib)) \<in>
     {[], [Call_fn ''qucumber.utils.data.load_data''
             [S ''qubits_train.txt'', S ''qubits_psi.txt'', S ''qubits_train_bases.txt'',
              S ''qubits_bases.txt''] []]} \<and>
   (outcome (run lib) = Inr () \<longrightarrow>
      filter (\<lambda>x. step_of x = Some Load_data) (returned (run lib)) =
        [Call_fn ''qucumber.utils.data.load_data''
           [S ''qubits_train.txt'', S ''qubits_psi.txt'', S ''qubits_train_bases.txt'',
            S ''qubits_bases.txt''] []]) \<and>
   (outcome (run_cells lib (take 2 notebook)) = Inr () \<longrightarrow>
      returned (run_cells lib (take 2 notebook)) ! 13 =
        Call_fn ''qucumber.utils.data.load_data''
          [S ''qubits_train.txt'', S ''qubits_psi.txt'', S ''qubits_train_bases.txt'',
           S ''qubits_bases.txt''] [] \<and>
      returned (run_cells lib (take 2 notebook)) ! 14 = Unpack (Obj 13) 4 \<and>
      map (map_of (env (final (run_cells lib (take 2 notebook)))))
        [''train_samples'', ''true_psi'', ''train_bases'', ''bases''] =
        [Some (Item 14 0), Some (Item 14 1), Some (Item 14 2), Some (Item 14 3)])"
proof (intro conjI impI)
  have "prefix (filter (\<lambda>x. step_of x = Some Load_data) (attempted (run lib)))
     (filter (\<lambda>x. step_of x = Some Load_data) script)"
    by (rule prefix_filter [OF attempted_prefix_script])
  then have "filter (\<lambda>x. step_of x = Some Load_data) (attempted (run lib)) = [] \<or>
      filter (\<lambda>x. step_of x = Some Load_data) (attempted (run lib)) =
        [Call_fn ''qucumber.utils.data.load_data''
           [S ''qubits_train.txt'', S ''qubits_psi.txt'', S ''qubits_train_bases.txt'',
            S ''qubits_bases.txt''] []]"
    unfolding script_load_calls by (rule prefix_of_one)
  then show "filter (\<lambda>x. step_of x = Some Load_data) (attempted (run lib)) \<in>
     {[], [Call_fn ''qucumber.utils.data.load_data''
             [S ''qubits_train.txt'', S ''qubits_psi.txt'', S ''qubits_train_bases.txt'',
              S ''qubits_bases.txt''] []]}"
    by (simp only: insert_iff) blast
  show "filter (\<lambda>x. step_of x = Some Load_data) (returned (run lib)) =
        [Call_fn ''qucumber.utils.data.load_data''
           [S ''qubits_train.txt'', S ''qubits_psi.txt'', S ''qubits_train_bases.txt'',
            S ''qubits_bases.txt''] []]"
    if "outcome (run lib) = Inr ()"
    using completed_notebook [OF that] script_load_calls by (simp add: script_def)
  assume "outcome (run_cells lib (take 2 notebook)) = Inr ()"
  then have same: "run_cells lib (take 2 notebook) = run_cells always (take 2 notebook)"
    by (rule completed_run [OF two_cells_handlers_free])
  show "returned (run_cells lib (take 2 notebook)) ! 13 =
        Call_fn ''qucumber.utils.data.load_data''
          [S ''qubits_train.txt'', S ''qubits_psi.txt'', S ''qubits_train_bases.txt'',
           S ''qubits_bases.txt''] []"
    unfolding same by (rule two_cells_facts(2))
  show "returned (run_cells lib (take 2 notebook)) ! 14 = Unpack (Obj 13) 4"
    unfolding same by (rule two_cells_facts(3))
  show "map (map_of (env (final (run_cells lib (take 2 notebook)))))
        [''train_samples'', ''true_psi'', ''train_bases'', ''bases''] =
        [Some (Item 14 0), Some (Item 14 1), Some (Item 14 2), Some (Item 14 3)]"
    unfolding same by (rule two_cells_facts(4))
qed

theorem load_data_reads_four_files_witness:
  "outcome (run always) = Inr () \<and>
   outcome (run_cells always (take 2 notebook)) = Inr () \<and>
   filter (\<lambda>x. step_of x = Some Load_data) (returned (run always)) =
     [Call_fn ''qucumber.utils.data.load_data''
        [S ''qubits_train.txt'', S ''qubits_psi.txt'', S ''qubits_train_bases.txt'',
         S ''qubits_bases.txt''] []] \<and>
   returned (run_cells always (take 2 notebook)) ! 14 = Unpack (Obj 13) 4 \<and>
   map (map_of (env (final (run_cells always (take 2 notebook)))))
     [''train_samples'', ''true_psi'', ''train_bases'', ''bases''] =
     [Some (Item 14 0), Some (Item 14 1), Some (Item 14 2), Some (Item 14 3)]"
proof -
  show ?thesis
    using load_data_reads_four_files [of always] run_always_completes two_cells_facts(1)
    by simp
qed

text \<open>
  C3. The last library operation of the notebook is the call of \<open>save\<close> with the one
  argument \<open>saved_params.pt\<close>. With the save operation as the specification describes
  it, a run that ends without exception has written one file, of that name, holding
  exactly the three keys \<open>weights\<close>, \<open>visible_bias\<close> and \<open>hidden_bias\<close>; whatever the
  library does, a run writes that file or none.
\<close>

theorem save_writes_parameter_file:
  "files_written (returned (run lib)) \<in>
     {[], [(''saved_params.pt'', [''weights'', ''visible_bias'', ''hidden_bias''])]} \<and>
   (outcome (run lib) = Inr () \<longrightarrow>
      files_written (returned (run lib)) =
        [(''saved_params.pt'', [''weights'', ''visible_bias'', ''hidden_bias''])] \<and>
      last (returned (run lib)) = Call_method (Obj 19) ''save'' [S ''saved_params.pt''] [] \<and>
      returned (run lib) ! 19 =
        Call_fn ''qucumber.nn_states.ComplexWaveFunction'' []
          [(''num_visible'', Obj 18), (''num_hidden'', Obj 18), (''unitary_dict'', Obj 16),
           (''gpu'', B False)])"
proof (intro conjI impI)
  have "prefix (files_written (returned (run lib))) (files_written script)"
    by (rule prefix_files_written [OF returned_prefix_script])
  then have "files_written (returned (run lib)) = [] \<or>
      files_written (returned (run lib)) = [(''saved_params.pt'', saved_keys)]"
    unfolding script_files_written by (rule prefix_of_one)
  then show "files_written (returned (run lib)) \<in>
     {[], [(''saved_params.pt'', [''weights'', ''visible_bias'', ''hidden_bias''])]}"
    unfolding saved_keys_def by (simp only: insert_iff) blast
  assume "outcome (run lib) = Inr ()"
  then have same: "run lib = run always"
    by (rule completed_notebook)
  show "files_written (returned (run lib)) =
        [(''saved_params.pt'', [''weights'', ''visible_bias'', ''hidden_bias''])]"
    using same script_files_written by (simp add: script_def saved_keys_def)
  show "last (returned (run lib)) = Call_method (Obj 19) ''save'' [S ''saved_params.pt''] []"
    using same script_last by (simp add: script_def)
  show "returned (run lib) ! 19 =
        Call_fn ''qucumber.nn_states.ComplexWaveFunction'' []
          [(''num_visible'', Obj 18), (''num_hidden'', Obj 18), (''unitary_dict'', Obj 16),
           (''gpu'', B False)]"
    using same script_model by (simp add: script_def)
qed

theorem save_writes_parameter_file_witness:
  "outcome (run always) = Inr () \<and>
   files_written (returned (run always)) =
     [(''saved_params.pt'', [''weights'', ''visible_bias'', ''hidden_bias''])] \<and>
   last (returned (run always)) = Call_method (Obj 19) ''save'' [S ''saved_params.pt''] []"
  using save_writes_parameter_file [of always] run_always_completes by simp

section \<open>Failures\<close>

subsection \<open>The recipes\<close>

lemma not_ignored: "\<not> ignored t"
  by (simp add: ignored_def rules_def rule_defs)

lemma no_line_ignores_errors:
  "r \<in> set rules \<Longrightarrow> l \<in> set (recipe r) \<Longrightarrow> \<not> ignore_errors l"
  by (auto simp add: rules_def rule_defs)

lemma word_char_bare:
  "word_char c \<Longrightarrow> \<not> blank c \<and> c \<noteq> CHR 0x27 \<and> c \<noteq> CHR 0x22 \<and> c \<noteq> CHR 0x5C \<and>
     c \<noteq> CHR 0x0A \<and> \<not> special_char c \<and> \<not> operator_char c"
  by (auto simp add: word_char_def blank_def special_char_def operator_char_def)

lemma grow_word_twice: "grow_word (grow_word w a s) b u = grow_word w (a \<and> b) (s @ u)"
  by (auto simp add: grow_word_def split: option.splits prod.splits)

lemma scan_word:
  "list_all word_char t \<Longrightarrow> t \<noteq> [] \<Longrightarrow>
     scan Unquoted w (t @ rest) = scan Unquoted (grow_word w True t) rest"
proof (induction t arbitrary: w)
  case Nil
  then show ?case by simp
next
  case (Cons c t)
  have c: "\<not> blank c" "c \<noteq> CHR 0x27" "c \<noteq> CHR 0x22" "c \<noteq> CHR 0x5C" "c \<noteq> CHR 0x0A"
    "\<not> special_char c" "\<not> operator_char c"
    using Cons.prems(1) word_char_bare by auto
  show ?case
  proof (cases "t = []")
    case True
    then show ?thesis using c by simp
  next
    case False
    then have "scan Unquoted (grow_word w True [c]) (t @ rest) =
        scan Unquoted (grow_word (grow_word w True [c]) True t) rest"
      using Cons.IH Cons.prems(1) by simp
    then show ?thesis using c by (simp add: grow_word_twice)
  qed
qed

lemmas shell_defs = parse_def blank_def special_char_def operator_char_def grow_word_def emit_def
  after_def piece_of_def pipeline_of_def simple_command_def reserved_def prefix_char_def
  noerror_def

lemma parse_catch_all:
  assumes "plain_word t"
  shows "map (\<lambda>c. (noerror c, parse (dropWhile prefix_char (cmd c))))
       (expand_recipe (plain bs) t catch_all) =
     [(False, Inr [(Always, False,
        [[''sphinx-build'', ''-M'', t, ''.'', ''_build'', ''-j'', ''1'', ''-aT'']])])]"
  unfolding catch_all_text using plain_word_chars [OF assms]
  by (simp add: shell_defs scan_word)


lemma parse_explicit:
  "map (\<lambda>c. (noerror c, parse (dropWhile prefix_char (cmd c))))
       (expand_recipe (plain bs) t help_rule) =
     [(False, Inr [(Always, False,
        [[''sphinx-build'', ''-M'', ''help'', ''.'', ''_build'', ''-j'', ''1'', ''-aT'']])])]"
  "map (\<lambda>c. (noerror c, parse (dropWhile prefix_char (cmd c))))
       (expand_recipe (plain bs) t test_rule) =
     [(False, Inr [(Always, False,
        [[''sphinx-build'', ''-nW'', ''-b'', ''dummy'', ''.'', ''_build'', ''-j'', ''1'',
          ''-aT'']])])]"
  "map (\<lambda>c. (noerror c, parse (dropWhile prefix_char (cmd c))))
       (expand_recipe (plain bs) t spelling_rule) =
     [(False, Inr [(Always, False,
        [[''sphinx-build'', ''-M'', ''spelling'', ''.'', ''_build'', ''-j'', ''1'', ''-aT'',
          ''-W'']])])]"
  "map (\<lambda>c. (noerror c, parse (dropWhile prefix_char (cmd c))))
       (expand_recipe (plain bs) t linkcheck_rule) =
     [(False, Inr [(Always, False,
        [[''sphinx-build'', ''-M'', ''linkcheck'', ''.'', ''_build'', ''-j'', ''1'', ''-aT'',
          ''-W'']])])]"
  by (simp_all add: eval_defs shell_defs)

lemma parse_live:
  "map (\<lambda>c. (noerror c, parse (dropWhile prefix_char (cmd c))))
       (expand_recipe (plain bs) t livehtml_rule) =
     [(False, Inr [(Always, False,
        [[''sphinx-autobuild'', ''-b'', ''html'', ''--watch'', ''../qucumber'', ''--watch'',
          ''../examples'', ''--ignore'', ''*.swp'', ''--ignore'', ''**/.~*.ipynb'', ''--ignore'',
          ''**/*-checkpoint.ipynb'', ''--re-ignore'', ''_examples/*'', ''--ignore'', ''Makefile'',
          ''-j'', ''1'', ''-aT'', ''.'', ''_build/html'']])])]"
  "map (\<lambda>c. (noerror c, parse (dropWhile prefix_char (cmd c))))
       (expand_recipe (plain bs) t livetest_rule) =
     [(False, Inr [(Always, False,
        [[''sphinx-autobuild'', ''-nW'', ''-b'', ''dummy'', ''--watch'', ''../qucumber'',
          ''--watch'', ''../examples'', ''--ignore'', ''*.swp'', ''--ignore'', ''**/.~*.ipynb'',
          ''--ignore'', ''**/*-checkpoint.ipynb'', ''--re-ignore'', ''_examples/*'', ''--ignore'',
          ''Makefile'', ''-j'', ''1'', ''-aT'', ''.'', ''_build'']])])]"
  by code_simp+

lemma run_one_command:
  assumes "map (\<lambda>c. (noerror c, parse (dropWhile prefix_char (cmd c)))) cs =
     [(False, Inr [(Always, False, [a])])]"
  shows "run_recipe prog False cs = Inr ([a], if prog a = 0 then 0 else 2)"
proof -
  from assms obtain c where c: "cs = [c]" "\<not> noerror c"
    "parse (dropWhile prefix_char (cmd c)) = Inr [(Always, False, [a])]"
    by auto
  show ?thesis
    unfolding c(1) using c(2,3) by (simp add: shell_def run_pipeline_def)
qed

lemma implicit_rule_is_catch_all:
  assumes "implicit_rule iv t = Some r"
  shows "r = catch_all"
proof -
  have "r \<in> set rules" and "\<exists>p \<in> set (targets r). pattern_match p t"
    using assms by (auto simp add: implicit_rule_def find_Some_iff)
  then show ?thesis
    by (auto simp add: rules_def rule_defs pattern_match_def is_pattern_def)
qed

lemma recipe_cases:
  assumes "g = None \<or> (\<exists>t. g = Some t \<and> plain_word t)"
    and "invoke_make (plain bs) g = Inr cs"
  shows "cs = [] \<or>
     (\<exists>a. hd a \<in> set [''sphinx-build'', ''sphinx-autobuild''] \<and>
        map (\<lambda>c. (noerror c, parse (dropWhile prefix_char (cmd c)))) cs =
          [(False, Inr [(Always, False, [a])])])"
proof -
  have named: "?thesis" if "invoke_make (plain bs) (Some t) = Inr cs" and "plain_word t" for t
  proof (cases "t \<in> set explicit_targets")
    case True
    then have "t = ''help'' \<or> t = ''test'' \<or> t = ''spelling'' \<or> t = ''linkcheck'' \<or>
        t = ''livehtml'' \<or> t = ''livetest''"
      by (simp add: explicit_targets_eq)
    then show ?thesis
    proof (elim disjE)
      assume "t = ''help''"
      then have "cs = expand_recipe (plain bs) ''help'' help_rule"
        using that(1) make_explicit(1) [of bs] by simp
      then show ?thesis using parse_explicit(1) [of bs "''help''"] by simp
    next
      assume "t = ''test''"
      then have "cs = expand_recipe (plain bs) ''test'' test_rule"
        using that(1) make_explicit(2) [of bs] by simp
      then show ?thesis using parse_explicit(2) [of bs "''test''"] by simp
    next
      assume "t = ''spelling''"
      then have "cs = expand_recipe (plain bs) ''spelling'' spelling_rule"
        using that(1) make_explicit(3) [of bs] by simp
      then show ?thesis using parse_explicit(3) [of bs "''spelling''"] by simp
    next
      assume "t = ''linkcheck''"
      then have "cs = expand_recipe (plain bs) ''linkcheck'' linkcheck_rule"
        using that(1) make_explicit(4) [of bs] by simp
      then show ?thesis using parse_explicit(4) [of bs "''linkcheck''"] by simp
    next
      assume "t = ''livehtml''"
      then have "cs = expand_recipe (plain bs) ''livehtml'' livehtml_rule"
        using that(1) make_explicit(5) [of bs] by simp
      then show ?thesis using parse_live(1) [of bs "''livehtml''"] by simp
    next
      assume "t = ''livetest''"
      then have "cs = expand_recipe (plain bs) ''livetest'' livetest_rule"
        using that(1) make_explicit(6) [of bs] by simp
      then show ?thesis using parse_live(2) [of bs "''livetest''"] by simp
    qed
  next
    case False
    then have "cs = [] \<or> cs = expand_recipe (plain bs) t catch_all"
      using that(1)
      by (auto simp add: invoke_make_def recipe_for_def explicit_rule_None
          dest: implicit_rule_is_catch_all split: option.splits if_splits)
    then show ?thesis
      using parse_catch_all [OF that(2), of bs] by auto
  qed
  from assms(1) show ?thesis
  proof
    assume "g = None"
    then have "invoke_make (plain bs) (Some ''help'') = Inr cs"
      using assms(2) by (simp add: invoke_make_def default_goal_help)
    moreover have "plain_word ''help''"
      by (simp add: word_char_def)
    ultimately show ?thesis by (rule named)
  next
    assume "\<exists>t. g = Some t \<and> plain_word t"
    then show ?thesis using assms(2) named by auto
  qed
qed

lemma recipes_propagate:
  assumes "g = None \<or> (\<exists>t. g = Some t \<and> plain_word t)"
    and "invoke_make (plain bs) g = Inr cs"
  shows "length cs \<le> 1 \<and>
     (\<exists>as. run_make prog (plain bs) g = Inr (as, if \<forall>a \<in> set as. prog a = 0 then 0 else 2) \<and>
        length as = length cs \<and>
        (\<forall>a \<in> set as. hd a = ''sphinx-build'' \<or> hd a = ''sphinx-autobuild''))"
proof -
  have run: "run_make prog (plain bs) g = run_recipe prog False cs"
    using assms(2) by (simp add: run_make_def not_ignored split: option.splits)
  from recipe_cases [OF assms] show ?thesis
  proof (elim disjE exE conjE)
    assume "cs = []"
    then show ?thesis using run by simp
  next
    fix a
    assume a: "hd a \<in> set [''sphinx-build'', ''sphinx-autobuild'']"
      and p: "map (\<lambda>c. (noerror c, parse (dropWhile prefix_char (cmd c)))) cs =
          [(False, Inr [(Always, False, [a])])]"
    have "length (map (\<lambda>c. (noerror c, parse (dropWhile prefix_char (cmd c)))) cs) = 1"
      unfolding p by simp
    then have "length cs = 1" by simp
    moreover have "run_make prog (plain bs) g = Inr ([a], if prog a = 0 then 0 else 2)"
      unfolding run by (rule run_one_command [OF p])
    ultimately show ?thesis using a by simp
  qed
qed

subsection \<open>The hooks\<close>

lemma run_each_ids:
  "map fst (run_each tool False fs hs) = map hook_id (filter (\<lambda>h. hook_runs h fs) hs)"
  by (induction hs) auto

lemma run_each_failed:
  "list_ex snd (run_each tool False fs hs) \<longleftrightarrow>
     (\<exists>h \<in> set hs. hook_runs h fs \<and> hook_fails tool h fs)"
  by (induction hs) auto

lemma hook_passes:
  "\<not> hook_fails tool h fs \<longleftrightarrow>
     language h \<noteq> Some ''fail'' \<and> (\<exists>ws. hook_command h fs = Some ws \<and> tool ws = (0, False))"
  by (auto simp add: hook_fails_def prod_eq_iff split: option.splits)

lemma local_hook_commands:
  "hook_command license_check fs = Some [''inv'', ''license-check'']"
  "hook_command lint_examples_flake8 fs = Some [''inv'', ''lint-examples'', ''-l'', ''flake8'']"
  "hook_command lint_examples_black fs = Some [''inv'', ''lint-examples'', ''-l'', ''black'']"
  by (simp_all add: hook_command_def license_check_def lint_examples_flake8_def
      lint_examples_black_def no_keys_def shell_words_def blank_def grow_def)

lemma hooks_propagate:
  "((\<forall>h \<in> set (configured mf). hook_command h fs \<noteq> None) \<longrightarrow>
      map fst (fst (run_hooks tool mf fs)) =
        map hook_id (filter (\<lambda>h. hook_runs h fs) (configured mf))) \<and>
   (snd (run_hooks tool mf fs) = 0 \<longleftrightarrow>
      (\<forall>h \<in> set (configured mf). \<exists>ws. hook_command h fs = Some ws \<and>
         (hook_runs h fs \<longrightarrow> language h \<noteq> Some ''fail'' \<and> tool ws = (0, False)))) \<and>
   map (\<lambda>h. (hook_id h, language h, hook_command h fs)) (hooks local_repo) =
     [(''license-check'', Some ''system'', Some [''inv'', ''license-check'']),
      (''lint-examples-flake8'', Some ''system'',
         Some [''inv'', ''lint-examples'', ''-l'', ''flake8'']),
      (''lint-examples-black'', Some ''system'',
         Some [''inv'', ''lint-examples'', ''-l'', ''black''])]"
proof (intro conjI impI)
  assume "\<forall>h \<in> set (configured mf). hook_command h fs \<noteq> None"
  then have "\<not> list_ex (\<lambda>h. hook_command h fs = None) (configured mf)"
    by (auto simp add: list_ex_iff)
  then show "map fst (fst (run_hooks tool mf fs)) =
     map hook_id (filter (\<lambda>h. hook_runs h fs) (configured mf))"
    by (simp add: run_hooks_def Let_def fail_fast_def run_each_ids)
next
  show "snd (run_hooks tool mf fs) = 0 \<longleftrightarrow>
      (\<forall>h \<in> set (configured mf). \<exists>ws. hook_command h fs = Some ws \<and>
         (hook_runs h fs \<longrightarrow> language h \<noteq> Some ''fail'' \<and> tool ws = (0, False)))"
  proof (cases "list_ex (\<lambda>h. hook_command h fs = None) (configured mf)")
    case True
    then obtain h where "h \<in> set (configured mf)" and "hook_command h fs = None"
      by (auto simp add: list_ex_iff)
    then have "\<not> (\<forall>h \<in> set (configured mf). \<exists>ws. hook_command h fs = Some ws \<and>
         (hook_runs h fs \<longrightarrow> language h \<noteq> Some ''fail'' \<and> tool ws = (0, False)))"
      by force
    then show ?thesis
      using True by (simp add: run_hooks_def)
  next
    case False
    then have all: "\<forall>h \<in> set (configured mf). \<exists>ws. hook_command h fs = Some ws"
      by (auto simp add: list_ex_iff)
    have "snd (run_hooks tool mf fs) = 0 \<longleftrightarrow>
        (\<forall>h \<in> set (configured mf). hook_runs h fs \<longrightarrow> \<not> hook_fails tool h fs)"
      using False by (auto simp add: run_hooks_def Let_def fail_fast_def run_each_failed)
    also have "\<dots> \<longleftrightarrow> (\<forall>h \<in> set (configured mf). \<exists>ws. hook_command h fs = Some ws \<and>
         (hook_runs h fs \<longrightarrow> language h \<noteq> Some ''fail'' \<and> tool ws = (0, False)))"
      unfolding hook_passes using all by fastforce
    finally show ?thesis .
  qed
next
  show "map (\<lambda>h. (hook_id h, language h, hook_command h fs)) (hooks local_repo) =
     [(''license-check'', Some ''system'', Some [''inv'', ''license-check'']),
      (''lint-examples-flake8'', Some ''system'',
         Some [''inv'', ''lint-examples'', ''-l'', ''flake8'']),
      (''lint-examples-black'', Some ''system'',
         Some [''inv'', ''lint-examples'', ''-l'', ''black''])]"
    by (simp add: local_repo_def local_hook_commands)
      (simp add: license_check_def lint_examples_flake8_def lint_examples_black_def no_keys_def)
qed

subsection \<open>The notebook\<close>

lemma script_fit:
  "length script = 68"
  "script ! 26 =
     Call_method (Obj 19) ''fit'' [Item 14 0]
       [(''epochs'', I 500), (''pos_batch_size'', I 100), (''neg_batch_size'', I 100),
        (''lr'', Q (1 / 10)), (''k'', I 10), (''input_bases'', Item 14 2),
        (''callbacks'', L [Obj 24]), (''time'', B True)]"
  by (simp_all add: script_def full_run returned_def)

lemma notebook_propagates:
  assumes "n < length script" and "\<forall>i < n. lib i (script ! i)" and "\<not> lib n (script ! n)"
  shows "outcome (run lib) = Inl (Raised (script ! n)) \<and> returned (run lib) = take n script"
  using first_refusal_ends_run [OF notebook_handlers_free, of n lib] assms
  by (simp add: script_def run_def)

subsection \<open>Nothing handles a failure\<close>

text \<open>
  C7. Nothing in the three files handles a failure, tries again, or recovers.
  \<^item> The Makefile. No rule is \<open>.IGNORE\<close> and no recipe line is marked with \<open>-\<close>. Called
    with no goal or with a goal that the shell leaves as one word, and nothing else, a
    goal that has a recipe has one line at most; the shell reads the line as one simple
    command (no \<open>||\<close>, \<open>&&\<close>, \<open>;\<close>, \<open>|\<close> or \<open>!\<close>), so the line runs one program, once,
    which is \<open>sphinx-build\<close> or \<open>sphinx-autobuild\<close>; and make ends with status 0 when
    that program returns 0 and with status 2 when it returns anything else, whatever
    the programs do.
  \<^item> The notebook. No cell holds a \<open>try\<close>, so whatever the library does: the first
    operation at which the library raises ends the run with that exception, the
    operations made being those before it, each once.
  \<^item> The hooks. Whatever the tools do and whatever the manifests of the two remote
    repositories hold: when every hook has a command, every hook that selects a file is
    run once, in the order of the file, also after another has failed; pre-commit ends
    with status 0 exactly when every hook has a command and, for each hook that selects
    a file, the language is not \<open>fail\<close> and the command returns 0 and has modified no
    file; and the three local hooks, of language \<open>system\<close>, run \<open>inv\<close> directly, not
    through a shell, with the words of their entry and nothing else.
\<close>

theorem failures_propagate:
  "(\<forall>r \<in> set rules. ''.IGNORE'' \<notin> set (targets r) \<and> (\<forall>l \<in> set (recipe r). \<not> ignore_errors l)) \<and>
   ((g = None \<or> (\<exists>t. g = Some t \<and> plain_word t)) \<and> invoke_make (plain bs) g = Inr cs \<longrightarrow>
      length cs \<le> 1 \<and>
      (\<exists>as. run_make prog (plain bs) g =
               Inr (as, if \<forall>a \<in> set as. prog a = 0 then 0 else 2) \<and>
         length as = length cs \<and>
         (\<forall>a \<in> set as. hd a = ''sphinx-build'' \<or> hd a = ''sphinx-autobuild''))) \<and>
   handlers_free (concat notebook) \<and>
   (\<forall>n < length script. (\<forall>i < n. lib i (script ! i)) \<and> \<not> lib n (script ! n) \<longrightarrow>
      outcome (run lib) = Inl (Raised (script ! n)) \<and> returned (run lib) = take n script) \<and>
   ((\<forall>h \<in> set (configured mf). hook_command h fs \<noteq> None) \<longrightarrow>
      map fst (fst (run_hooks tool mf fs)) =
        map hook_id (filter (\<lambda>h. hook_runs h fs) (configured mf))) \<and>
   (snd (run_hooks tool mf fs) = 0 \<longleftrightarrow>
      (\<forall>h \<in> set (configured mf). \<exists>ws. hook_command h fs = Some ws \<and>
         (hook_runs h fs \<longrightarrow> language h \<noteq> Some ''fail'' \<and> tool ws = (0, False)))) \<and>
   map (\<lambda>h. (hook_id h, language h, hook_command h fs)) (hooks local_repo) =
     [(''license-check'', Some ''system'', Some [''inv'', ''license-check'']),
      (''lint-examples-flake8'', Some ''system'',
         Some [''inv'', ''lint-examples'', ''-l'', ''flake8'']),
      (''lint-examples-black'', Some ''system'',
         Some [''inv'', ''lint-examples'', ''-l'', ''black''])]"
proof -
  have static: "\<forall>r \<in> set rules.
      ''.IGNORE'' \<notin> set (targets r) \<and> (\<forall>l \<in> set (recipe r). \<not> ignore_errors l)"
    using no_line_ignores_errors by (auto simp add: rules_def rule_defs)
  have recipes: "(g = None \<or> (\<exists>t. g = Some t \<and> plain_word t)) \<and>
      invoke_make (plain bs) g = Inr cs \<longrightarrow>
      length cs \<le> 1 \<and>
      (\<exists>as. run_make prog (plain bs) g =
               Inr (as, if \<forall>a \<in> set as. prog a = 0 then 0 else 2) \<and>
         length as = length cs \<and>
         (\<forall>a \<in> set as. hd a = ''sphinx-build'' \<or> hd a = ''sphinx-autobuild''))"
    using recipes_propagate [of g bs cs prog] by blast
  have cells: "\<forall>n < length script. (\<forall>i < n. lib i (script ! i)) \<and> \<not> lib n (script ! n) \<longrightarrow>
      outcome (run lib) = Inl (Raised (script ! n)) \<and> returned (run lib) = take n script"
    using notebook_propagates [of _ lib] by blast
  show ?thesis
    using static recipes notebook_handlers_free cells hooks_propagate [where tool = tool and mf = mf and fs = fs]
    by (intro conjI) blast+
qed

theorem failures_propagate_witness:
  "plain_word ''linkcheck'' \<and>
   invoke_make (plain []) (Some ''linkcheck'') =
     Inr [\<lparr>quiet = True, tolerated = False,
           cmd = ''sphinx-build -M linkcheck \".\" \"_build\" -j 1 -aT  -W''\<rparr>] \<and>
   (\<exists>as. run_make (\<lambda>a. 1) (plain []) (Some ''linkcheck'') = Inr (as, 2) \<and> length as = 1) \<and>
   outcome (run (\<lambda>n x. n \<noteq> 26)) =
     Inl (Raised (Call_method (Obj 19) ''fit'' [Item 14 0]
       [(''epochs'', I 500), (''pos_batch_size'', I 100), (''neg_batch_size'', I 100),
        (''lr'', Q (1 / 10)), (''k'', I 10), (''input_bases'', Item 14 2),
        (''callbacks'', L [Obj 24]), (''time'', B True)])) \<and>
   returned (run (\<lambda>n x. n \<noteq> 26)) = take 26 script \<and>
   map fst (fst (run_hooks (\<lambda>ws. (0, True))
       (\<lambda>r i. Some ((no_keys i) \<lparr>entry := Some i, language := Some ''python'',
          types := Some [''python'']\<rparr>))
       [\<lparr>path = ''examples/a/b.ipynb'', kinds = [''jupyter'']\<rparr>])) =
     [''lint-examples-flake8'', ''lint-examples-black''] \<and>
   hook_command lint_examples_flake8 [\<lparr>path = ''examples/a/b.ipynb'', kinds = [''jupyter'']\<rparr>] =
     Some [''inv'', ''lint-examples'', ''-l'', ''flake8''] \<and>
   snd (run_hooks (\<lambda>ws. (0, True))
       (\<lambda>r i. Some ((no_keys i) \<lparr>entry := Some i, language := Some ''python'',
          types := Some [''python'']\<rparr>))
       [\<lparr>path = ''examples/a/b.ipynb'', kinds = [''jupyter'']\<rparr>]) \<noteq> 0"
proof -
  let ?c = "\<lparr>quiet = True, tolerated = False,
       cmd = ''sphinx-build -M linkcheck \".\" \"_build\" -j 1 -aT  -W''\<rparr>"
  let ?fs = "[\<lparr>path = ''examples/a/b.ipynb'', kinds = [''jupyter'']\<rparr>]"
  let ?mf = "\<lambda>r i. Some ((no_keys i) \<lparr>entry := Some i, language := Some ''python'',
       types := Some [''python'']\<rparr>)"
  note inst = failures_propagate [where g = "Some ''linkcheck''" and bs = "[]" and cs = "[?c]"
      and prog = "\<lambda>a. 1" and lib = "\<lambda>n x. n \<noteq> 26" and mf = "?mf" and fs = "?fs"
      and tool = "\<lambda>ws. (0, True)"]
  have w: "plain_word ''linkcheck''"
    by (simp add: word_char_def)
  have m: "invoke_make (plain []) (Some ''linkcheck'') = Inr [?c]"
    unfolding make_explicit(4) by (simp add: eval_defs)
  have "\<exists>as. run_make (\<lambda>a. 1) (plain []) (Some ''linkcheck'') =
          Inr (as, if \<forall>a \<in> set as. (1::nat) = 0 then 0 else 2) \<and> length as = length [?c]"
    using inst w m by blast
  then have r: "\<exists>as. run_make (\<lambda>a. 1) (plain []) (Some ''linkcheck'') = Inr (as, 2) \<and>
      length as = 1"
    by (auto simp add: length_Suc_conv)
  have n: "outcome (run (\<lambda>n x. n \<noteq> 26)) = Inl (Raised (script ! 26)) \<and>
      returned (run (\<lambda>n x. n \<noteq> 26)) = take 26 script"
    using inst script_fit(1) by simp
  have a: "\<forall>h \<in> set (configured ?mf). hook_command h ?fs \<noteq> None"
    by code_simp
  have b: "map hook_id (filter (\<lambda>h. hook_runs h ?fs) (configured ?mf)) =
      [''lint-examples-flake8'', ''lint-examples-black'']"
    by code_simp
  have i: "map fst (fst (run_hooks (\<lambda>ws. (0, True)) ?mf ?fs)) =
      [''lint-examples-flake8'', ''lint-examples-black'']"
    using inst a b by simp
  have c: "hook_command lint_examples_flake8 ?fs =
      Some [''inv'', ''lint-examples'', ''-l'', ''flake8'']"
    using inst by (simp add: local_repo_def)
  have d: "lint_examples_flake8 \<in> set (configured ?mf)"
    by (simp add: configured_eq)
  have e: "hook_runs lint_examples_flake8 ?fs"
    by (simp add: hook_runs_def lint_examples_selects re_search_def examples_notebooks_def
        alt_def cat_def)
  have h: "snd (run_hooks (\<lambda>ws. (0, True)) ?mf ?fs) \<noteq> 0"
    using inst c d e by auto
  show ?thesis
    using w m r n i c h by (simp add: script_fit(2))
qed

end
